theory Spec2Isabelle
  imports Complex_Main "HOL-Library.AList" "HOL-Library.Word"
begin

section \<open>Voix: temporary audio artifacts of a Streamlit text-to-speech page\<close>

text \<open>
  A shallow embedding of \<^verbatim>\<open>src/app.py\<close>. The script keeps three kinds of state: the
  files of the operating system, the Streamlit session state (the loaded model, the path
  of the last model, the set \<^verbatim>\<open>temp_files_to_cleanup\<close>) and what it has shown to the user.
  All three are fields of one record that every function takes and returns. The
  collaborators outside the repository (the operating system, \<^verbatim>\<open>tempfile\<close>, the Coqui
  \<^verbatim>\<open>TTS\<close> class and its \<^verbatim>\<open>tts_to_file\<close>) are fields of that record too, so that every
  statement holds for whatever they do. A Python \<^verbatim>\<open>str\<close> is the list of the bytes of its
  UTF-8 encoding.
\<close>

subsection \<open>Data\<close>

type_synonym byte = "8 word"
type_synonym path = string

record fs_file =
  content :: "byte list"
  mtime :: real

text \<open>
  The exceptions the modelled statements can raise. The two of the operating system carry
  the path, \<^verbatim>\<open>AttributeError\<close> the name of the attribute that was not found.
\<close>

datatype exn =
    FileNotFoundError path
  | PermissionError path
  | IndexError
  | AttributeError string

text \<open>
  The keyword arguments of one \<^verbatim>\<open>model.tts_to_file(...)\<close> call. An argument that the
  call does not pass is \<open>None\<close>.
\<close>

record tts_call =
  kw_text :: string
  kw_speaker :: "string option"
  kw_language :: "string option"
  kw_file_path :: path
  kw_speed :: real

text \<open>
  What a \<^verbatim>\<open>tts_to_file\<close> call does: it returns after writing the audio bytes to the
  path, or it raises an exception with a message, leaving whatever it had written so far.
\<close>

datatype tts_outcome = Wrote "byte list" | Raised string "byte list"

text \<open>
  A loaded \<^verbatim>\<open>TTS\<close> object. \<open>languages\<close> and \<open>speakers\<close> are \<open>None\<close> when the object
  has no such attribute or the attribute is \<^verbatim>\<open>None\<close>.
\<close>

record tts_object =
  languages :: "string list option"
  speakers :: "string list option"
  tts_to_file :: "tts_call \<Rightarrow> tts_outcome"

text \<open>
  What \<^verbatim>\<open>test_voice_loading\<close> meets after the constructor has returned an object
  \<^verbatim>\<open>tts\<close>: \<^verbatim>\<open>hasattr(tts, 'speakers')\<close> is false, or \<^verbatim>\<open>len(tts.speakers)\<close> is a number, or
  reading the attribute or taking its length raises an exception with a message.
\<close>

datatype speakers_probe = NoSpeakers | SpeakersLen nat | SpeakersError string

text \<open>
  The elements shown to the user that the model records: every call of \<^verbatim>\<open>st.error\<close>,
  \<^verbatim>\<open>st.success\<close>, \<^verbatim>\<open>st.warning\<close>, \<^verbatim>\<open>st.audio\<close> and \<^verbatim>\<open>st.download_button\<close>. The other
  elements (titles, headers, captions, \<^verbatim>\<open>st.write\<close>, \<^verbatim>\<open>st.info\<close>, spinners, the help) and
  the widgets are not recorded.
\<close>

datatype ui_event =
    StError string
  | StSuccess string
  | StWarning string
  | StAudio "byte list"
  | StDownloadButton "byte list"

text \<open>
  \<^item> \<open>files\<close>: the file system, an association list from absolute paths to files;
  \<^item> \<open>unlink_denied\<close>: the paths whose \<^verbatim>\<open>os.unlink\<close> raises although the file exists;
  \<^item> \<open>tempdir\<close>, \<open>tempdir_writable\<close>: \<^verbatim>\<open>tempfile.gettempdir()\<close> and whether a file can
    be created there;
  \<^item> \<open>random_names\<close>: the random middle parts that \<^verbatim>\<open>tempfile\<close> will draw for its names;
  \<^item> \<open>tempfile_error\<close>: \<^verbatim>\<open>str(e)\<close> of the exception that \<^verbatim>\<open>NamedTemporaryFile\<close> raises
    when it cannot create a file;
  \<^item> \<open>glob_magic\<close>: what \<^verbatim>\<open>glob.glob\<close> returns, given the paths of the existing files, for
    a pattern whose directory part has one of the pattern characters \<^verbatim>\<open>*\<close>, \<^verbatim>\<open>?\<close>,
    \<^verbatim>\<open>[\<close>; the model does not compute it;
  \<^item> \<open>clock\<close>: \<^verbatim>\<open>time.time()\<close>, in seconds;
  \<^item> \<open>temp_files_to_cleanup\<close>, \<open>tts_model\<close>, \<open>last_model_path\<close>: the session state. The
    Python set is a list without duplicates (\<open>List.insert\<close> adds, \<open>removeAll\<close> discards);
  \<^item> \<open>TTS\<close>: what the body of the \<^verbatim>\<open>try\<close> in \<^verbatim>\<open>load_tts_model\<close> yields for a model
    name: the message of the exception, or the loaded object;
  \<^item> \<open>TTS_probe\<close>: what the body of the \<^verbatim>\<open>try\<close> in \<^verbatim>\<open>test_voice_loading\<close> meets for a
    model name: the message of the exception of the constructor, or what the
    \<^verbatim>\<open>speakers\<close> attribute of the object gives;
  \<^item> \<open>tts_calls\<close>: the \<^verbatim>\<open>tts_to_file\<close> calls made so far, oldest first;
  \<^item> \<open>ui\<close>: the status elements shown so far, oldest first.
\<close>

record world =
  files :: "(path \<times> fs_file) list"
  unlink_denied :: "path \<Rightarrow> bool"
  tempdir :: path
  tempdir_writable :: bool
  random_names :: "string list"
  tempfile_error :: string
  glob_magic :: "path list \<Rightarrow> string \<Rightarrow> path list"
  clock :: real
  temp_files_to_cleanup :: "path list"
  tts_model :: "tts_object option"
  last_model_path :: "string option"
  TTS :: "string \<Rightarrow> string + tts_object"
  TTS_probe :: "string \<Rightarrow> string + speakers_probe"
  tts_calls :: "tts_call list"
  ui :: "ui_event list"

subsection \<open>The operating system and the libraries\<close>

definition os_path_exists :: "world \<Rightarrow> path \<Rightarrow> bool" where
  "os_path_exists w p = (map_of (files w) p \<noteq> None)"

definition os_unlink :: "path \<Rightarrow> world \<Rightarrow> exn + world" where
  "os_unlink p w =
     (if \<not> os_path_exists w p then Inl (FileNotFoundError p)
      else if unlink_denied w p then Inl (PermissionError p)
      else Inr (w\<lparr>files := AList.delete p (files w)\<rparr>))"

definition os_path_getmtime :: "path \<Rightarrow> world \<Rightarrow> exn + real" where
  "os_path_getmtime p w =
     (case map_of (files w) p of
        None \<Rightarrow> Inl (FileNotFoundError p)
      | Some f \<Rightarrow> Inr (mtime f))"

text \<open>\<^verbatim>\<open>with open(p, "rb") as f: f.read()\<close>\<close>

definition read_bytes :: "path \<Rightarrow> world \<Rightarrow> exn + byte list" where
  "read_bytes p w =
     (case map_of (files w) p of
        None \<Rightarrow> Inl (FileNotFoundError p)
      | Some f \<Rightarrow> Inr (content f))"

definition write_bytes :: "path \<Rightarrow> byte list \<Rightarrow> world \<Rightarrow> world" where
  "write_bytes p bs w =
     w\<lparr>files := AList.update p \<lparr>content = bs, mtime = clock w\<rparr> (files w)\<rparr>"

text \<open>\<^verbatim>\<open>os.path.join(a, b)\<close> for a relative \<open>b\<close>.\<close>

definition os_path_join :: "path \<Rightarrow> string \<Rightarrow> path" where
  "os_path_join a b = (if a = [] \<or> last a = CHR ''/'' then a @ b else a @ ''/'' @ b)"

text \<open>
  \<^verbatim>\<open>tempfile.NamedTemporaryFile(delete=False, suffix=".wav")\<close>: the name is the default
  prefix \<^verbatim>\<open>tmp\<close>, a random middle part and the suffix; the library draws middle parts
  until the name is that of no existing file, creates the file empty, and raises when
  the directory is not writable or the names run out. A failure is the message of the
  exception.
\<close>

definition temp_name :: "world \<Rightarrow> string \<Rightarrow> path" where
  "temp_name w r = os_path_join (tempdir w) (''tmp'' @ r @ ''.wav'')"

fun mkstemp_inner :: "world \<Rightarrow> string list \<Rightarrow> (path \<times> string list) option" where
  "mkstemp_inner w [] = None"
| "mkstemp_inner w (r # rs) =
     (if os_path_exists w (temp_name w r) then mkstemp_inner w rs
      else Some (temp_name w r, rs))"

definition NamedTemporaryFile :: "world \<Rightarrow> string + (path \<times> world)" where
  "NamedTemporaryFile w =
     (if \<not> tempdir_writable w then Inl (tempfile_error w)
      else case mkstemp_inner w (random_names w) of
        None \<Rightarrow> Inl (tempfile_error w)
      | Some (p, rest) \<Rightarrow> Inr (p, (write_bytes p [] w)\<lparr>random_names := rest\<rparr>))"

definition st_error :: "string \<Rightarrow> world \<Rightarrow> world" where
  "st_error msg w = w\<lparr>ui := ui w @ [StError msg]\<rparr>"

definition st_success :: "string \<Rightarrow> world \<Rightarrow> world" where
  "st_success msg w = w\<lparr>ui := ui w @ [StSuccess msg]\<rparr>"

definition st_warning :: "string \<Rightarrow> world \<Rightarrow> world" where
  "st_warning msg w = w\<lparr>ui := ui w @ [StWarning msg]\<rparr>"

text \<open>Python truthiness of an optional string and of an optional list attribute.\<close>

fun truthy :: "'a list option \<Rightarrow> bool" where
  "truthy None = False"
| "truthy (Some []) = False"
| "truthy (Some (x # xs)) = True"

subsection \<open>\<^verbatim>\<open>generate_audio\<close>\<close>

text \<open>
  One \<^verbatim>\<open>tts_to_file\<close> call on the world: the call is recorded, and the bytes it has
  written (all of them, or those before the exception) are in the file.
\<close>

definition call_tts_to_file :: "tts_object \<Rightarrow> tts_call \<Rightarrow> world \<Rightarrow> string \<times> world + world" where
  "call_tts_to_file model kw w =
     (let w1 = w\<lparr>tts_calls := tts_calls w @ [kw]\<rparr> in
      case tts_to_file model kw of
        Wrote bs \<Rightarrow> Inr (write_bytes (kw_file_path kw) bs w1)
      | Raised msg part \<Rightarrow> Inl (msg, write_bytes (kw_file_path kw) part w1))"

text \<open>Lines 85 to 99: which keyword arguments the call gets.\<close>

definition tts_kwargs ::
  "tts_object \<Rightarrow> string \<Rightarrow> string option \<Rightarrow> string option \<Rightarrow> path \<Rightarrow> real \<Rightarrow> tts_call" where
  "tts_kwargs model txt speaker language temp_file_path speed =
     (if truthy (languages model) then
        (if truthy speaker \<and> truthy language then
           \<lparr>kw_text = txt, kw_speaker = speaker, kw_language = language,
            kw_file_path = temp_file_path, kw_speed = speed\<rparr>
         else if truthy language then
           \<lparr>kw_text = txt, kw_speaker = None, kw_language = language,
            kw_file_path = temp_file_path, kw_speed = speed\<rparr>
         else
           \<lparr>kw_text = txt, kw_speaker = None, kw_language = Some ''fr-fr'',
            kw_file_path = temp_file_path, kw_speed = speed\<rparr>)
      else if truthy speaker \<and> truthy (speakers model) then
        \<lparr>kw_text = txt, kw_speaker = speaker, kw_language = None,
         kw_file_path = temp_file_path, kw_speed = speed\<rparr>
      else
        \<lparr>kw_text = txt, kw_speaker = None, kw_language = None,
         kw_file_path = temp_file_path, kw_speed = speed\<rparr>)"

text \<open>
  The handler of line 106: the file is unlinked when the path is set and the file exists,
  an exception of the unlink is dropped, the error is shown, and \<^verbatim>\<open>None\<close> is returned.
\<close>

definition unlink_ignoring_errors :: "path \<Rightarrow> world \<Rightarrow> world" where
  "unlink_ignoring_errors p w = (case os_unlink p w of Inl e \<Rightarrow> w | Inr w' \<Rightarrow> w')"

definition generate_audio ::
  "string \<Rightarrow> tts_object \<Rightarrow> string option \<Rightarrow> string option \<Rightarrow> real \<Rightarrow> world
     \<Rightarrow> path option \<times> world" where
  "generate_audio txt model speaker language speed w =
     (case NamedTemporaryFile w of
        Inl msg \<Rightarrow> (None, st_error (''Error generating audio: '' @ msg) w)
      | Inr (temp_file_path, w1) \<Rightarrow>
          (case call_tts_to_file model
                  (tts_kwargs model txt speaker language temp_file_path speed) w1 of
             Inr w2 \<Rightarrow>
               (Some temp_file_path,
                w2\<lparr>temp_files_to_cleanup :=
                      List.insert temp_file_path (temp_files_to_cleanup w2)\<rparr>)
           | Inl (msg, w2) \<Rightarrow>
               (None,
                st_error (''Error generating audio: '' @ msg)
                  (if temp_file_path \<noteq> [] \<and> os_path_exists w2 temp_file_path
                   then unlink_ignoring_errors temp_file_path w2 else w2))))"

subsection \<open>\<^verbatim>\<open>cleanup_temp_files\<close>\<close>

text \<open>
  The body of the loop for one path. The \<^verbatim>\<open>discard\<close> stands after the \<^verbatim>\<open>unlink\<close> inside
  the \<^verbatim>\<open>try\<close>, so an exception of the unlink skips it.
\<close>

definition cleanup_step :: "path \<Rightarrow> world \<Rightarrow> world" where
  "cleanup_step file_path w =
     (if os_path_exists w file_path then
        (case os_unlink file_path w of
           Inl e \<Rightarrow> w
         | Inr w' \<Rightarrow>
             w'\<lparr>temp_files_to_cleanup := removeAll file_path (temp_files_to_cleanup w')\<rparr>)
      else w\<lparr>temp_files_to_cleanup := removeAll file_path (temp_files_to_cleanup w)\<rparr>)"

text \<open>
  \<^verbatim>\<open>st.session_state\<close> is the state of the script run that reads it. A function that is
  called outside a script run, as the handlers of \<^verbatim>\<open>atexit\<close> are, finds a state without
  keys, and reading the attribute raises \<^verbatim>\<open>AttributeError\<close>.
\<close>

definition session_temp_files :: "bool \<Rightarrow> world \<Rightarrow> exn + path list" where
  "session_temp_files in_script_run w =
     (if in_script_run then Inr (temp_files_to_cleanup w)
      else Inl (AttributeError ''temp_files_to_cleanup''))"

text \<open>
  Line 26 reads the set outside the \<^verbatim>\<open>try\<close>: its exception leaves the function. The
  loop runs over a copy of the set taken before the first step.
\<close>

definition cleanup_temp_files :: "bool \<Rightarrow> world \<Rightarrow> exn \<times> world + world" where
  "cleanup_temp_files in_script_run w =
     (case session_temp_files in_script_run w of
        Inl e \<Rightarrow> Inl (e, w)
      | Inr tracked \<Rightarrow> Inr (fold cleanup_step tracked w))"

subsection \<open>\<^verbatim>\<open>cleanup_orphaned_files\<close>\<close>

text \<open>
  \<^verbatim>\<open>fnmatch\<close> for a pattern of plain characters and \<^verbatim>\<open>*\<close>, which is all that
  \<^verbatim>\<open>tmp*.wav\<close> has: the star stands for any run of characters, also the empty one.
\<close>

fun fnmatch :: "string \<Rightarrow> string \<Rightarrow> bool" where
  "fnmatch [] s = (s = [])"
| "fnmatch (c # pat) [] = (c = CHR ''*'' \<and> fnmatch pat [])"
| "fnmatch (c # pat) (d # s) =
     (if c = CHR ''*'' then fnmatch pat (d # s) \<or> fnmatch (c # pat) s
      else c = d \<and> fnmatch pat s)"

text \<open>
  The name of the path \<open>p\<close> inside the directory \<open>d\<close>, when \<open>p\<close> is an entry of \<open>d\<close>
  itself and not of a directory below it.
\<close>

definition entry_name :: "path \<Rightarrow> path \<Rightarrow> string option" where
  "entry_name d p =
     (let pre = os_path_join d [];
          name = drop (length pre) p
      in if take (length pre) p = pre \<and> name \<noteq> [] \<and> CHR ''/'' \<notin> set name
         then Some name else None)"

text \<open>\<^verbatim>\<open>glob.has_magic\<close>: the string has a pattern character.\<close>

definition has_magic :: "string \<Rightarrow> bool" where
  "has_magic s = (CHR ''*'' \<in> set s \<or> CHR ''?'' \<in> set s \<or> CHR ''['' \<in> set s)"

text \<open>
  \<^verbatim>\<open>glob.glob(os.path.join(d, pat))\<close>. When the directory path \<open>d\<close> has no pattern
  character, the result is the paths of the entries of \<open>d\<close> whose names match. When it
  has one, \<^verbatim>\<open>glob\<close> reads \<open>d\<close> as a pattern too, and the result is what the world says.
\<close>

definition glob_glob :: "world \<Rightarrow> path \<Rightarrow> string \<Rightarrow> path list" where
  "glob_glob w d pat =
     (if has_magic d then glob_magic w (remdups (map fst (files w))) (os_path_join d pat)
      else
        filter (\<lambda>p. case entry_name d p of None \<Rightarrow> False | Some name \<Rightarrow> fnmatch pat name)
          (remdups (map fst (files w))))"

text \<open>
  The body of the loop for one path: an exception of \<^verbatim>\<open>getmtime\<close> or of \<^verbatim>\<open>unlink\<close>
  ends the step. The threshold is the constant of line 43.
\<close>

definition sweep_step :: "path \<Rightarrow> world \<Rightarrow> world" where
  "sweep_step file_path w =
     (case os_path_getmtime file_path w of
        Inl e \<Rightarrow> w
      | Inr t \<Rightarrow>
          if t < clock w - 3600 then unlink_ignoring_errors file_path w else w)"

definition cleanup_orphaned_files :: "world \<Rightarrow> world" where
  "cleanup_orphaned_files w =
     fold sweep_step (glob_glob w (tempdir w) ''tmp*.wav'') w"

subsection \<open>Python strings\<close>

text \<open>\<^verbatim>\<open>s.startswith(pre)\<close> and \<^verbatim>\<open>needle in s\<close>.\<close>

fun startswith :: "string \<Rightarrow> string \<Rightarrow> bool" where
  "startswith [] s = True"
| "startswith (c # cs) [] = False"
| "startswith (c # cs) (d # ds) = (c = d \<and> startswith cs ds)"

fun str_contains :: "string \<Rightarrow> string \<Rightarrow> bool" where
  "str_contains needle [] = (needle = [])"
| "str_contains needle (d # ds) = (startswith needle (d # ds) \<or> str_contains needle ds)"

text \<open>
  The UTF-8 encodings of the characters for which \<^verbatim>\<open>str.isspace\<close> holds: U+0009 to
  U+000D, U+001C to U+0020, U+0085, U+00A0, U+1680, U+2000 to U+200A, U+2028, U+2029,
  U+202F, U+205F and U+3000.
\<close>

definition whitespace :: "string list" where
  "whitespace =
     [[CHR 0x09], [CHR 0x0A], [CHR 0x0B], [CHR 0x0C], [CHR 0x0D],
      [CHR 0x1C], [CHR 0x1D], [CHR 0x1E], [CHR 0x1F], [CHR 0x20],
      [CHR 0xC2, CHR 0x85], [CHR 0xC2, CHR 0xA0],
      [CHR 0xE1, CHR 0x9A, CHR 0x80],
      [CHR 0xE2, CHR 0x80, CHR 0x80], [CHR 0xE2, CHR 0x80, CHR 0x81],
      [CHR 0xE2, CHR 0x80, CHR 0x82], [CHR 0xE2, CHR 0x80, CHR 0x83],
      [CHR 0xE2, CHR 0x80, CHR 0x84], [CHR 0xE2, CHR 0x80, CHR 0x85],
      [CHR 0xE2, CHR 0x80, CHR 0x86], [CHR 0xE2, CHR 0x80, CHR 0x87],
      [CHR 0xE2, CHR 0x80, CHR 0x88], [CHR 0xE2, CHR 0x80, CHR 0x89],
      [CHR 0xE2, CHR 0x80, CHR 0x8A],
      [CHR 0xE2, CHR 0x80, CHR 0xA8], [CHR 0xE2, CHR 0x80, CHR 0xA9],
      [CHR 0xE2, CHR 0x80, CHR 0xAF],
      [CHR 0xE2, CHR 0x81, CHR 0x9F],
      [CHR 0xE3, CHR 0x80, CHR 0x80]]"

text \<open>The rest of the string after one of the given encodings, when it starts with one.\<close>

fun after_space :: "string list \<Rightarrow> string \<Rightarrow> string option" where
  "after_space [] s = None"
| "after_space (e # es) s =
     (if e \<noteq> [] \<and> startswith e s then Some (drop (length e) s) else after_space es s)"

function strip_leading :: "string list \<Rightarrow> string \<Rightarrow> string" where
  "strip_leading ws s =
     (case after_space ws s of None \<Rightarrow> s | Some s' \<Rightarrow> strip_leading ws s')"
  by pat_completeness auto
termination
proof (relation "measure (\<lambda>(ws, s). length s)")
  show "wf (measure (\<lambda>(ws, s). length s))"
    by simp
next
  fix ws :: "string list" and s s' :: string
  assume "after_space ws s = Some s'"
  then have "length s' < length s"
  proof (induction ws)
    case Nil
    then show ?case by simp
  next
    case (Cons e es)
    show ?case
    proof (cases "e \<noteq> [] \<and> startswith e s")
      case True
      then have "s \<noteq> []" "0 < length e"
        by (cases e; cases s; simp)+
      with True Cons.prems show ?thesis
        by auto
    next
      case False
      with Cons show ?thesis
        by auto
    qed
  qed
  then show "((ws, s'), (ws, s)) \<in> measure (\<lambda>(ws, s). length s)"
    by simp
qed

text \<open>
  \<^verbatim>\<open>str.strip()\<close>: the white space at both ends goes. In UTF-8 a run of bytes at an end
  of a text that is the encoding of a character is that character.
\<close>

definition lstrip :: "string \<Rightarrow> string" where
  "lstrip s = strip_leading whitespace s"

definition rstrip :: "string \<Rightarrow> string" where
  "rstrip s = rev (strip_leading (map rev whitespace) (rev s))"

definition strip :: "string \<Rightarrow> string" where
  "strip s = rstrip (lstrip s)"

text \<open>
  \<^verbatim>\<open>len(s)\<close> and \<^verbatim>\<open>s[:n]\<close> count characters: in UTF-8, the bytes that are not
  continuation bytes (\<^verbatim>\<open>0x80\<close> to \<^verbatim>\<open>0xBF\<close>).
\<close>

definition is_continuation :: "char \<Rightarrow> bool" where
  "is_continuation c = (0x80 \<le> (of_char c :: nat) \<and> (of_char c :: nat) < 0xC0)"

definition py_len :: "string \<Rightarrow> nat" where
  "py_len s = length (filter (\<lambda>c. \<not> is_continuation c) s)"

fun take_chars :: "nat \<Rightarrow> string \<Rightarrow> string" where
  "take_chars n [] = []"
| "take_chars n (c # s) =
     (if is_continuation c then c # take_chars n s
      else (case n of 0 \<Rightarrow> [] | Suc m \<Rightarrow> c # take_chars m s))"

text \<open>The decimal digits of a number, as an f-string prints it.\<close>

function str_nat :: "nat \<Rightarrow> string" where
  "str_nat n =
     (if n < 10 then [char_of (48 + n)]
      else str_nat (n div 10) @ [char_of (48 + n mod 10)])"
  by pat_completeness auto
termination
  by (relation "measure id") auto

text \<open>An optional string in an f-string: \<^verbatim>\<open>None\<close> prints as its name.\<close>

fun format_opt :: "string option \<Rightarrow> string" where
  "format_opt None = ''None''"
| "format_opt (Some s) = s"

text \<open>The UTF-8 bytes of the three signs that the messages start with.\<close>

definition check_mark :: string where
  "check_mark = [CHR 0xE2, CHR 0x9C, CHR 0x85]"

definition cross_mark :: string where
  "cross_mark = [CHR 0xE2, CHR 0x9D, CHR 0x8C]"

definition warning_sign :: string where
  "warning_sign = [CHR 0xE2, CHR 0x9A, CHR 0xA0, CHR 0xEF, CHR 0xB8, CHR 0x8F]"

subsection \<open>\<^verbatim>\<open>load_tts_model\<close>\<close>

text \<open>
  The \<^verbatim>\<open>try\<close> body (the allowlisting, the device choice, the construction of the
  \<^verbatim>\<open>TTS\<close> object and its move to the device) is the field \<open>TTS\<close> of the world. The
  decorator \<^verbatim>\<open>st.cache_resource\<close> keeps the result per model name; as \<open>TTS\<close> is a
  function of the name, a cached result is the result of running the body again.
\<close>

definition load_tts_model :: "string \<Rightarrow> world \<Rightarrow> tts_object option \<times> world" where
  "load_tts_model model_name w =
     (case TTS w model_name of
        Inr tts \<Rightarrow> (Some tts, w)
      | Inl e \<Rightarrow> (None, st_error (''Error loading model: '' @ e) w))"

subsection \<open>\<^verbatim>\<open>main\<close>\<close>

text \<open>
  Lines 274 to 285, the part of \<^verbatim>\<open>main\<close> that the specification calls
  \<^verbatim>\<open>read_and_release\<close>: the file is opened and read, the bytes go to the player and to
  the download button, the file is unlinked. No statement of it stands in a \<^verbatim>\<open>try\<close>: an
  exception leaves \<^verbatim>\<open>main\<close>, and the result then holds the world at that moment.
\<close>

definition read_and_release :: "path \<Rightarrow> world \<Rightarrow> exn \<times> world + byte list \<times> world" where
  "read_and_release audio_file w =
     (case read_bytes audio_file w of
        Inl e \<Rightarrow> Inl (e, w)
      | Inr audio_bytes \<Rightarrow>
          (let w1 = w\<lparr>ui := ui w @ [StAudio audio_bytes, StDownloadButton audio_bytes]\<rparr> in
           case os_unlink audio_file w1 of
             Inl e \<Rightarrow> Inl (e, w1)
           | Inr w2 \<Rightarrow>
               Inr (audio_bytes,
                    st_success ([CHR 0xE2, CHR 0x9C, CHR 0x85] @ '' Reading complete!'') w2)))"

text \<open>
  The table of line 188. The labels are the UTF-8 bytes of the source's strings; the
  speakers of the third and of the fifth entry end with a line feed.
\<close>

definition woman :: string where
  "woman = [CHR 0xF0, CHR 0x9F, CHR 0x91, CHR 0xA9]"

definition man :: string where
  "man = [CHR 0xF0, CHR 0x9F, CHR 0x91, CHR 0xA8]"

definition e_acute :: string where
  "e_acute = [CHR 0xC3, CHR 0xA9]"

definition your_tts :: string where
  "your_tts = ''tts_models/multilingual/multi-dataset/your_tts''"

definition voice_options :: "(string \<times> string \<times> string option) list" where
  "voice_options =
     [(man @ '' Pierre (Voix Masculine Claire)'', ''tts_models/fr/css10/vits'', None),
      (woman @ '' Marie (Voix F'' @ e_acute @ ''minine Douce)'', your_tts,
         Some ''female-en-5''),
      (woman @ '' Sophie (Voix F'' @ e_acute @ ''minine Naturelle)'', your_tts,
         Some (''female-pt-4'' @ [CHR ''\<newline>''])),
      (man @ '' Antoine (Voix Masculine Grave)'', your_tts, Some ''male-en-2''),
      (man @ '' Laurent (Voix Masculine Expressive)'', your_tts,
         Some (''male-pt-3'' @ [CHR ''\<newline>'']))]"

text \<open>What the widgets return in one run of the script.\<close>

record page_input =
  test_button :: bool
  selected_voice_idx :: nat
  voice_speed :: real
  text_input :: string

text \<open>
  \<^verbatim>\<open>test_voice_loading\<close>. The dictionary of results is an association list in the
  order of insertion; an assignment to a key that is there replaces its value in place.
  An exception after the first assignment (from the \<^verbatim>\<open>speakers\<close> attribute) overwrites
  the entry of the model.
\<close>

definition french_voices :: "(string \<times> string option) list" where
  "french_voices = [(''tts_models/fr/css10/vits'', None), (your_tts, Some ''fr-fr'')]"

definition error_status :: "string \<Rightarrow> string" where
  "error_status e = cross_mark @ '' Error: '' @ take_chars 50 e @ ''...''"

definition test_voice ::
  "world \<Rightarrow> string \<times> string option \<Rightarrow> (string \<times> string) list \<Rightarrow> (string \<times> string) list" where
  "test_voice w voice test_results =
     (case voice of
        (model_path, language) \<Rightarrow>
          (let key = model_path @ ''_'' @ format_opt language in
           case TTS_probe w model_path of
             Inl e \<Rightarrow> AList.update key (error_status e) test_results
           | Inr probe \<Rightarrow>
               (let results1 = AList.update key (check_mark @ '' Available'') test_results in
                if str_contains ''your_tts'' model_path then
                  (case probe of
                     NoSpeakers \<Rightarrow> results1
                   | SpeakersLen n \<Rightarrow>
                       AList.update (model_path @ ''_speakers'')
                         (check_mark @ '' '' @ str_nat n @ '' speakers available'') results1
                   | SpeakersError e \<Rightarrow> AList.update key (error_status e) results1)
                else results1)))"

definition test_voice_loading :: "world \<Rightarrow> (string \<times> string) list" where
  "test_voice_loading w = fold (test_voice w) french_voices []"

text \<open>Lines 177 to 185: the branch of the test button.\<close>

definition show_test_result :: "string \<times> string \<Rightarrow> world \<Rightarrow> world" where
  "show_test_result result w =
     (case result of
        (voice_key, status) \<Rightarrow>
          if str_contains ''Available'' status
          then st_success (check_mark @ '' '' @ voice_key) w
          else st_error (cross_mark @ '' '' @ voice_key @ '': '' @ status) w)"

definition test_button_branch :: "page_input \<Rightarrow> world \<Rightarrow> world" where
  "test_button_branch inp w =
     (if test_button inp then fold show_test_result (test_voice_loading w) w else w)"

text \<open>Lines 254 to 257: the warning for a text of more than 1000 characters.\<close>

definition warn_long_text :: "page_input \<Rightarrow> world \<Rightarrow> world" where
  "warn_long_text inp w =
     (if 1000 < py_len (text_input inp)
      then st_warning (warning_sign @ '' Long texts may take more time to process'') w
      else w)"

text \<open>
  Lines 200 to 208: the model is loaded when none is loaded or the selection names
  another one.
\<close>

definition select_model :: "string \<Rightarrow> world \<Rightarrow> world" where
  "select_model model_path w =
     (if tts_model w = None \<or> last_model_path w \<noteq> Some model_path then
        (case load_tts_model model_path w of
           (m, w') \<Rightarrow>
             (let w'' = w'\<lparr>tts_model := m, last_model_path := Some model_path\<rparr> in
              if m \<noteq> None
              then st_success ([CHR 0xE2, CHR 0x9C, CHR 0x85] @ '' Model loaded successfully!'') w''
              else st_error ([CHR 0xE2, CHR 0x9D, CHR 0x8C] @ '' Failed to load model'') w''))
      else w)"

text \<open>Lines 211 to 214.\<close>

definition show_model_status :: "world \<Rightarrow> world" where
  "show_model_status w =
     (if tts_model w \<noteq> None
      then st_success ([CHR 0xE2, CHR 0x9C, CHR 0x85] @ '' Model Ready'') w
      else st_warning ([CHR 0xE2, CHR 0x9A, CHR 0xA0, CHR 0xEF, CHR 0xB8, CHR 0x8F]
                         @ '' Please load a model first'') w)"

text \<open>Lines 265 to 271: with which speaker and language \<^verbatim>\<open>generate_audio\<close> is called.\<close>

definition generate_for_voice ::
  "string \<Rightarrow> string option \<Rightarrow> page_input \<Rightarrow> tts_object \<Rightarrow> world \<Rightarrow> path option \<times> world" where
  "generate_for_voice model_path speaker inp model w =
     (if str_contains ''your_tts'' model_path \<and> truthy speaker then
        generate_audio (text_input inp) model speaker (Some ''fr-fr'') (voice_speed inp) w
      else if truthy speaker then
        generate_audio (text_input inp) model speaker None (voice_speed inp) w
      else
        generate_audio (text_input inp) model None None (voice_speed inp) w)"

text \<open>
  One run of \<^verbatim>\<open>main\<close>, in the order of the source: the test button, the selection and
  the loading of the model, the status of the model, the warning for a long text, the
  synthesis and the reading. The select box returns an index of the table.
\<close>

definition main :: "page_input \<Rightarrow> world \<Rightarrow> exn \<times> world + world" where
  "main inp w =
     (if length voice_options \<le> selected_voice_idx inp
      then Inl (IndexError, test_button_branch inp w)
      else
        (case voice_options ! selected_voice_idx inp of
           (label, model_path, speaker) \<Rightarrow>
             (let w2 = warn_long_text inp
                         (show_model_status
                            (select_model model_path (test_button_branch inp w))) in
              case tts_model w2 of
                None \<Rightarrow> Inr w2
              | Some model \<Rightarrow>
                  if strip (text_input inp) = [] then Inr w2
                  else
                    (case generate_for_voice model_path speaker inp model w2 of
                       (audio_file, w3) \<Rightarrow>
                         if truthy audio_file
                         then (case read_and_release (the audio_file) w3 of
                                 Inl ew \<Rightarrow> Inl ew
                               | Inr (audio_bytes, w4) \<Rightarrow> Inr w4)
                         else Inr w3))))"

text \<open>
  The first run of a session: lines 21, 22 and 54 to 59 find no key in the session
  state and set the three of them, line 51 registers \<^verbatim>\<open>cleanup_temp_files\<close> for the exit
  of the process, and line 323 calls \<^verbatim>\<open>main\<close>. At the exit of the process the handler is
  called outside every script run.
\<close>

definition new_session :: "world \<Rightarrow> world" where
  "new_session w = w\<lparr>temp_files_to_cleanup := [], tts_model := None, last_model_path := None\<rparr>"

definition session_start :: "page_input \<Rightarrow> world \<Rightarrow> exn \<times> world + world" where
  "session_start inp w = main inp (new_session w)"

definition process_exit :: "world \<Rightarrow> exn \<times> world + world" where
  "process_exit w = cleanup_temp_files False w"

text \<open>What a run ended with: the exception that left \<^verbatim>\<open>main\<close>, if any, and the world.\<close>

definition raised :: "exn \<times> world + world \<Rightarrow> exn option" where
  "raised r = (case r of Inl (e, w) \<Rightarrow> Some e | Inr w \<Rightarrow> None)"

definition final_world :: "exn \<times> world + world \<Rightarrow> world" where
  "final_world r = (case r of Inl (e, w) \<Rightarrow> w | Inr w \<Rightarrow> w)"

text \<open>
  The specification's scenario of two \<^verbatim>\<open>read_and_release\<close> in a row on one path: the
  bytes of the first, then the bytes or the exception of the second.
\<close>

definition release_twice :: "path \<Rightarrow> world \<Rightarrow> exn \<times> world + byte list \<times> (exn + byte list)" where
  "release_twice p w =
     (case read_and_release p w of
        Inl ew \<Rightarrow> Inl ew
      | Inr (bs, w') \<Rightarrow>
          (case read_and_release p w' of
             Inl (e, w'') \<Rightarrow> Inr (bs, Inl e)
           | Inr (bs', w'') \<Rightarrow> Inr (bs, Inr bs')))"

text \<open>What one \<^verbatim>\<open>read_and_release\<close> ended with, and the world it left.\<close>

definition release_result :: "exn \<times> world + byte list \<times> world \<Rightarrow> exn + byte list" where
  "release_result r = map_sum fst fst r"

definition release_world :: "exn \<times> world + byte list \<times> world \<Rightarrow> world" where
  "release_world r = case_sum snd snd r"

subsection \<open>The specification's sweep\<close>

text \<open>
  The specification's \<^verbatim>\<open>sweep_orphans(age_threshold)\<close>, written from its words and not
  from the source: of the files in the temporary directory that match the naming
  convention, those whose last-modified time is older than the threshold are deleted,
  and nothing else changes.
\<close>

definition is_artifact_name :: "world \<Rightarrow> path \<Rightarrow> bool" where
  "is_artifact_name w p =
     (case entry_name (tempdir w) p of None \<Rightarrow> False | Some name \<Rightarrow> fnmatch ''tmp*.wav'' name)"

definition is_older_than :: "real \<Rightarrow> world \<Rightarrow> path \<Rightarrow> bool" where
  "is_older_than age_threshold w p =
     (case map_of (files w) p of
        None \<Rightarrow> False
      | Some f \<Rightarrow> mtime f < clock w - age_threshold)"

definition sweep_orphans :: "real \<Rightarrow> world \<Rightarrow> world" where
  "sweep_orphans age_threshold w =
     w\<lparr>files :=
         filter (\<lambda>(p, f). \<not> (is_artifact_name w p \<and> is_older_than age_threshold w p))
           (files w)\<rparr>"

subsection \<open>Concrete inputs\<close>

text \<open>
  A multilingual model that writes 5000 bytes, one whose synthesis fails after two
  bytes, one that returns without having written a byte, and a machine with an empty
  temporary directory on which only the multilingual model loads.
\<close>

definition good_model :: tts_object where
  "good_model =
     \<lparr>languages = Some [''en'', ''fr-fr'', ''pt-br''],
      speakers = Some [''female-en-5'', ''male-en-2''],
      tts_to_file = (\<lambda>kw. Wrote (replicate 5000 0))\<rparr>"

definition failing_model :: tts_object where
  "failing_model =
     \<lparr>languages = Some [''en'', ''fr-fr'', ''pt-br''],
      speakers = Some [''female-en-5'', ''male-en-2''],
      tts_to_file = (\<lambda>kw. Raised ''CUDA out of memory'' [0x52, 0x49])\<rparr>"

definition silent_model :: tts_object where
  "silent_model =
     \<lparr>languages = Some [''en'', ''fr-fr'', ''pt-br''],
      speakers = Some [''female-en-5'', ''male-en-2''],
      tts_to_file = (\<lambda>kw. Wrote [])\<rparr>"

definition new_path :: path where
  "new_path = ''/tmp/tmpk3x9q2ab.wav''"

definition old_path :: path where
  "old_path = ''/tmp/tmpw7h1m0cd.wav''"

definition base_world :: world where
  "base_world =
     \<lparr>files = [],
      unlink_denied = (\<lambda>p. False),
      tempdir = ''/tmp'',
      tempdir_writable = True,
      random_names = [''k3x9q2ab'', ''e5r8t1yu''],
      tempfile_error = ''[Errno 28] No space left on device'',
      glob_magic = (\<lambda>names pattern. []),
      clock = 100000,
      temp_files_to_cleanup = [],
      tts_model = None,
      last_model_path = None,
      TTS = (\<lambda>name. if name = your_tts then Inr good_model else Inl ''model not found''),
      TTS_probe =
        (\<lambda>name. if name = your_tts then Inr (SpeakersLen 6) else Inl ''model not found''),
      tts_calls = [],
      ui = []\<rparr>"

text \<open>The same machine when the operating system refuses every unlink.\<close>

definition locked_world :: world where
  "locked_world = base_world\<lparr>unlink_denied := (\<lambda>p. True)\<rparr>"

text \<open>
  The session after an artifact of the name that \<^verbatim>\<open>tempfile\<close> draws next was read and
  unlinked: the file is gone, the path is still in the set.
\<close>

definition reused_world :: world where
  "reused_world = base_world\<lparr>temp_files_to_cleanup := [new_path]\<rparr>"

text \<open>
  A temporary directory with an artifact written two hours ago, one written a minute
  ago and a file of another program.
\<close>

definition orphan_world :: world where
  "orphan_world =
     base_world\<lparr>files :=
       [(old_path, \<lparr>content = [0x52, 0x49, 0x46, 0x46], mtime = 92800\<rparr>),
        (''/tmp/tmpa1b2c3d4.wav'', \<lparr>content = [0x52], mtime = 99940\<rparr>),
        (''/tmp/notes.txt'', \<lparr>content = [0x68, 0x69], mtime = 5\<rparr>)]\<rparr>"

text \<open>The same directory when the old artifact is tracked and cannot be unlinked.\<close>

definition stuck_world :: world where
  "stuck_world =
     orphan_world\<lparr>unlink_denied := (\<lambda>p. p = old_path),
                   temp_files_to_cleanup := [old_path, new_path]\<rparr>"

definition recent_path :: path where
  "recent_path = ''/tmp/tmpa1b2c3d4.wav''"

text \<open>The same directory when the session tracks the old artifact and a path without a file.\<close>

definition tracked_world :: world where
  "tracked_world = orphan_world\<lparr>temp_files_to_cleanup := [old_path, new_path]\<rparr>"

text \<open>The third voice of the table, with a text to read; the first voice.\<close>

definition sophie_input :: page_input where
  "sophie_input =
     \<lparr>test_button = False, selected_voice_idx = 2, voice_speed = 1, text_input = ''Bonjour''\<rparr>"

definition pierre_input :: page_input where
  "pierre_input =
     \<lparr>test_button = False, selected_voice_idx = 0, voice_speed = 1, text_input = ''Bonjour''\<rparr>"

section \<open>Properties\<close>

subsection \<open>Facts about the libraries\<close>

lemma os_path_join_not_Nil: "b \<noteq> [] \<Longrightarrow> os_path_join a b \<noteq> []"
  by (simp add: os_path_join_def)

lemma temp_name_not_Nil: "temp_name w r \<noteq> []"
  by (simp add: temp_name_def os_path_join_not_Nil)

lemma mkstemp_inner_Some:
  "mkstemp_inner w rs = Some (p, rest) \<Longrightarrow>
     \<not> os_path_exists w p \<and> (\<exists>r. p = temp_name w r)"
  by (induction rs) (auto split: if_splits)

lemma NamedTemporaryFile_Inr:
  assumes "NamedTemporaryFile w = Inr (p, w1)"
  shows "\<not> os_path_exists w p"
    and "\<exists>r. p = temp_name w r"
    and "\<exists>rest. w1 = (write_bytes p [] w)\<lparr>random_names := rest\<rparr>"
  using assms
  by (auto simp: NamedTemporaryFile_def split: if_splits option.splits dest: mkstemp_inner_Some)

lemma kw_file_path_tts_kwargs:
  "kw_file_path (tts_kwargs model txt speaker language p speed) = p"
  by (simp add: tts_kwargs_def)

subsection \<open>The three ways through \<^verbatim>\<open>generate_audio\<close>\<close>

lemma generate_audio_Inl:
  "NamedTemporaryFile w = Inl e \<Longrightarrow>
   generate_audio txt model speaker language speed w =
     (None, st_error (''Error generating audio: '' @ e) w)"
  by (simp add: generate_audio_def)

lemma generate_audio_Wrote:
  assumes "NamedTemporaryFile w = Inr (p, w1)"
    and "tts_to_file model (tts_kwargs model txt speaker language p speed) = Wrote bs"
  shows "generate_audio txt model speaker language speed w =
     (Some p,
      w1\<lparr>tts_calls := tts_calls w @ [tts_kwargs model txt speaker language p speed],
         files := AList.update p \<lparr>content = bs, mtime = clock w\<rparr> (files w1),
         temp_files_to_cleanup := List.insert p (temp_files_to_cleanup w)\<rparr>)"
proof -
  obtain rest where w1: "w1 = (write_bytes p [] w)\<lparr>random_names := rest\<rparr>"
    using NamedTemporaryFile_Inr(3) [OF assms(1)] by blast
  show ?thesis
    using assms
    by (simp add: generate_audio_def call_tts_to_file_def Let_def write_bytes_def
          kw_file_path_tts_kwargs w1)
qed

lemma generate_audio_Raised:
  assumes "NamedTemporaryFile w = Inr (p, w1)"
    and "tts_to_file model (tts_kwargs model txt speaker language p speed) = Raised msg part"
  shows "generate_audio txt model speaker language speed w =
     (None,
      w1\<lparr>tts_calls := tts_calls w @ [tts_kwargs model txt speaker language p speed],
         files := (if unlink_denied w p
                   then AList.update p \<lparr>content = part, mtime = clock w\<rparr> (files w1)
                   else AList.delete p (files w1)),
         ui := ui w @ [StError (''Error generating audio: '' @ msg)]\<rparr>)"
proof -
  obtain rest where w1: "w1 = (write_bytes p [] w)\<lparr>random_names := rest\<rparr>"
    using NamedTemporaryFile_Inr(3) [OF assms(1)] by blast
  obtain r where "p = temp_name w r"
    using NamedTemporaryFile_Inr(2) [OF assms(1)] by blast
  then have p: "p \<noteq> []"
    by (simp add: temp_name_not_Nil)
  show ?thesis
    using assms p
    by (simp add: generate_audio_def call_tts_to_file_def Let_def write_bytes_def
          kw_file_path_tts_kwargs w1 st_error_def unlink_ignoring_errors_def os_unlink_def
          os_path_exists_def update_conv' delete_update_same)
qed

lemma generate_audio_Some:
  assumes "generate_audio txt model speaker language speed w = (Some p, w')"
  shows "\<exists>w1 bs. NamedTemporaryFile w = Inr (p, w1) \<and>
           tts_to_file model (tts_kwargs model txt speaker language p speed) = Wrote bs"
proof (cases "NamedTemporaryFile w")
  case (Inl e)
  with assms show ?thesis by (simp add: generate_audio_Inl)
next
  case (Inr r)
  obtain q w1 where r: "r = (q, w1)" by (cases r)
  show ?thesis
  proof (cases "tts_to_file model (tts_kwargs model txt speaker language q speed)")
    case (Wrote bs)
    with assms Inr r show ?thesis
      by (simp add: generate_audio_Wrote [OF Inr [unfolded r] Wrote])
  next
    case (Raised msg part)
    with assms Inr r show ?thesis
      by (simp add: generate_audio_Raised [OF Inr [unfolded r] Raised])
  qed
qed

lemma tts_calls_generate_audio:
  assumes "NamedTemporaryFile w = Inr (p, w1)"
  shows "tts_calls (snd (generate_audio txt model speaker language speed w)) =
      tts_calls w @ [tts_kwargs model txt speaker language p speed]"
proof (cases "tts_to_file model (tts_kwargs model txt speaker language p speed)")
  case (Wrote bs)
  show ?thesis
    by (simp add: generate_audio_Wrote [OF assms Wrote])
next
  case (Raised msg part)
  show ?thesis
    by (simp add: generate_audio_Raised [OF assms Raised])
qed

subsection \<open>The default language\<close>

text \<open>
  Claim C8. When the model is multilingual (its \<open>languages\<close> attribute is a non-empty
  list) and \<^verbatim>\<open>generate_audio\<close> gets no language (\<^verbatim>\<open>None\<close> or the empty string), the one
  \<^verbatim>\<open>tts_to_file\<close> call it makes, once the temporary file is there, has the language
  \<^verbatim>\<open>fr-fr\<close>; it has no speaker, whichever speaker was given.
\<close>

theorem generate_audio_default_language:
  assumes "truthy (languages model)" and "\<not> truthy language"
    and "NamedTemporaryFile w = Inr (p, w1)"
  shows "tts_calls (snd (generate_audio txt model speaker language speed w)) =
           tts_calls w @ [\<lparr>kw_text = txt, kw_speaker = None, kw_language = Some ''fr-fr'',
                            kw_file_path = p, kw_speed = speed\<rparr>]"
proof -
  have kw: "tts_kwargs model txt speaker language p speed =
      \<lparr>kw_text = txt, kw_speaker = None, kw_language = Some ''fr-fr'',
       kw_file_path = p, kw_speed = speed\<rparr>"
    using assms(1,2) by (simp add: tts_kwargs_def)
  show ?thesis
    using tts_calls_generate_audio [OF assms(3)] by (simp add: kw)
qed

lemma NamedTemporaryFile_base_world:
  "\<exists>w1. NamedTemporaryFile base_world = Inr (new_path, w1)"
  by (simp add: NamedTemporaryFile_def base_world_def temp_name_def os_path_join_def
        os_path_exists_def new_path_def)

text \<open>A speaker and an empty language: the call has \<^verbatim>\<open>fr-fr\<close> and no speaker.\<close>

theorem generate_audio_default_language_witness:
  "truthy (languages good_model) \<and> \<not> truthy (Some '''') \<and>
   tts_calls (snd (generate_audio ''Bonjour'' good_model (Some ''female-en-5'') (Some '''') 1
                     base_world)) =
     [\<lparr>kw_text = ''Bonjour'', kw_speaker = None, kw_language = Some ''fr-fr'',
       kw_file_path = new_path, kw_speed = 1\<rparr>]"
proof -
  have h1: "truthy (languages good_model)"
    by (simp add: good_model_def)
  have h2: "\<not> truthy (Some '''')"
    by simp
  obtain w1 where h3: "NamedTemporaryFile base_world = Inr (new_path, w1)"
    using NamedTemporaryFile_base_world by blast
  have "tts_calls base_world = []"
    by (simp add: base_world_def)
  with generate_audio_default_language [OF h1 h2 h3] h1 show ?thesis
    by simp
qed

subsection \<open>A synthesis that fails\<close>

text \<open>
  Claim C1, as amended. When \<^verbatim>\<open>tts_to_file\<close> raises, \<^verbatim>\<open>generate_audio\<close> returns \<^verbatim>\<open>None\<close>
  and does not raise, it shows the error, and it leaves the set
  \<^verbatim>\<open>temp_files_to_cleanup\<close> as it was. It tries to unlink the file: afterwards the file
  exists exactly when the operating system refused the unlink, an exception that the
  handler drops.
\<close>

theorem generate_audio_provider_failure:
  assumes "NamedTemporaryFile w = Inr (p, w1)"
    and "tts_to_file model (tts_kwargs model txt speaker language p speed) = Raised msg part"
  shows "fst (generate_audio txt model speaker language speed w) = None \<and>
         ui (snd (generate_audio txt model speaker language speed w)) =
           ui w @ [StError (''Error generating audio: '' @ msg)] \<and>
         temp_files_to_cleanup (snd (generate_audio txt model speaker language speed w)) =
           temp_files_to_cleanup w \<and>
         os_path_exists (snd (generate_audio txt model speaker language speed w)) p =
           unlink_denied w p"
proof -
  obtain rest where w1: "w1 = (write_bytes p [] w)\<lparr>random_names := rest\<rparr>"
    using NamedTemporaryFile_Inr(3) [OF assms(1)] by blast
  show ?thesis
    by (simp add: generate_audio_Raised [OF assms] w1 write_bytes_def os_path_exists_def
          update_conv' delete_conv')
qed


lemma NamedTemporaryFile_locked_world:
  "\<exists>w1. NamedTemporaryFile locked_world = Inr (new_path, w1)"
  by (simp add: NamedTemporaryFile_def locked_world_def base_world_def temp_name_def
        os_path_join_def os_path_exists_def new_path_def)

lemma NamedTemporaryFile_reused_world:
  "\<exists>w1. NamedTemporaryFile reused_world = Inr (new_path, w1)"
  by (simp add: NamedTemporaryFile_def reused_world_def base_world_def temp_name_def
        os_path_join_def os_path_exists_def new_path_def)

lemma failing_model_Raised:
  "tts_to_file failing_model kw = Raised ''CUDA out of memory'' [0x52, 0x49]"
  by (simp add: failing_model_def)

text \<open>On the machine with the empty temporary directory the file is gone.\<close>

theorem generate_audio_provider_failure_witness:
  "fst (generate_audio ''Bonjour'' failing_model None None 1 base_world) = None \<and>
   ui (snd (generate_audio ''Bonjour'' failing_model None None 1 base_world)) =
     [StError ''Error generating audio: CUDA out of memory''] \<and>
   temp_files_to_cleanup (snd (generate_audio ''Bonjour'' failing_model None None 1 base_world)) = [] \<and>
   \<not> os_path_exists (snd (generate_audio ''Bonjour'' failing_model None None 1 base_world)) new_path"
proof -
  obtain w1 where h: "NamedTemporaryFile base_world = Inr (new_path, w1)"
    using NamedTemporaryFile_base_world by blast
  have "ui base_world = []" "temp_files_to_cleanup base_world = []"
    "\<not> unlink_denied base_world new_path"
    by (simp_all add: base_world_def)
  with generate_audio_provider_failure [OF h failing_model_Raised, of "''Bonjour''" None None 1]
  show ?thesis
    by simp
qed

text \<open>
  The claim as it was written fails twice. Where the unlink is refused, the call
  returns \<^verbatim>\<open>None\<close> and the file it passed to the model is still there. Where the set
  holds the path of an artifact released earlier and \<^verbatim>\<open>tempfile\<close> draws that name
  again, the path is in the set when the call returns.
\<close>

theorem generate_audio_provider_failure_counterexample:
  "fst (generate_audio ''Bonjour'' failing_model None None 1 locked_world) = None \<and>
   map kw_file_path
     (tts_calls (snd (generate_audio ''Bonjour'' failing_model None None 1 locked_world))) =
     [new_path] \<and>
   os_path_exists (snd (generate_audio ''Bonjour'' failing_model None None 1 locked_world))
     new_path \<and>
   fst (generate_audio ''Bonjour'' failing_model None None 1 reused_world) = None \<and>
   map kw_file_path
     (tts_calls (snd (generate_audio ''Bonjour'' failing_model None None 1 reused_world))) =
     [new_path] \<and>
   new_path \<in> set (temp_files_to_cleanup
     (snd (generate_audio ''Bonjour'' failing_model None None 1 reused_world)))"
proof -
  obtain w1 where h1: "NamedTemporaryFile locked_world = Inr (new_path, w1)"
    using NamedTemporaryFile_locked_world by blast
  obtain w2 where h2: "NamedTemporaryFile reused_world = Inr (new_path, w2)"
    using NamedTemporaryFile_reused_world by blast
  obtain r1 where w1: "w1 = (write_bytes new_path [] locked_world)\<lparr>random_names := r1\<rparr>"
    using NamedTemporaryFile_Inr(3) [OF h1] by blast
  obtain r2 where w2: "w2 = (write_bytes new_path [] reused_world)\<lparr>random_names := r2\<rparr>"
    using NamedTemporaryFile_Inr(3) [OF h2] by blast
  have locked: "unlink_denied locked_world new_path" "tts_calls locked_world = []"
    by (simp_all add: locked_world_def base_world_def)
  have reused: "temp_files_to_cleanup reused_world = [new_path]" "tts_calls reused_world = []"
    by (simp_all add: reused_world_def base_world_def)
  have a: "fst (generate_audio ''Bonjour'' failing_model None None 1 locked_world) = None \<and>
      map kw_file_path
        (tts_calls (snd (generate_audio ''Bonjour'' failing_model None None 1 locked_world))) =
        [new_path] \<and>
      os_path_exists (snd (generate_audio ''Bonjour'' failing_model None None 1 locked_world))
        new_path"
    by (simp add: generate_audio_Raised [OF h1 failing_model_Raised] locked w1 write_bytes_def
          os_path_exists_def update_conv' kw_file_path_tts_kwargs)
  have b: "fst (generate_audio ''Bonjour'' failing_model None None 1 reused_world) = None \<and>
      map kw_file_path
        (tts_calls (snd (generate_audio ''Bonjour'' failing_model None None 1 reused_world))) =
        [new_path] \<and>
      new_path \<in> set (temp_files_to_cleanup
        (snd (generate_audio ''Bonjour'' failing_model None None 1 reused_world)))"
    by (simp add: generate_audio_Raised [OF h2 failing_model_Raised] reused w2 write_bytes_def
          kw_file_path_tts_kwargs)
  from a b show ?thesis by simp
qed

subsection \<open>Reading and releasing\<close>

lemma read_and_release_missing_file:
  "\<not> os_path_exists w p \<Longrightarrow> read_and_release p w = Inl (FileNotFoundError p, w)"
  by (simp add: read_and_release_def read_bytes_def os_path_exists_def)

lemma read_and_release_denied:
  "map_of (files w) p = Some f \<Longrightarrow> unlink_denied w p \<Longrightarrow>
   read_and_release p w =
     Inl (PermissionError p,
          w\<lparr>ui := ui w @ [StAudio (content f), StDownloadButton (content f)]\<rparr>)"
  by (simp add: read_and_release_def read_bytes_def os_unlink_def os_path_exists_def)

lemma read_and_release_ok:
  "map_of (files w) p = Some f \<Longrightarrow> \<not> unlink_denied w p \<Longrightarrow>
   read_and_release p w =
     Inr (content f,
          w\<lparr>ui := ui w @ [StAudio (content f), StDownloadButton (content f),
                           StSuccess ([CHR 0xE2, CHR 0x9C, CHR 0x85] @ '' Reading complete!'')],
            files := AList.delete p (files w)\<rparr>)"
  by (simp add: read_and_release_def read_bytes_def os_unlink_def os_path_exists_def
        st_success_def)

lemma read_and_release_Inr:
  assumes "read_and_release p w = Inr (bs, w')"
  shows "\<exists>f. map_of (files w) p = Some f \<and> content f = bs \<and> \<not> unlink_denied w p \<and>
           files w' = AList.delete p (files w) \<and>
           temp_files_to_cleanup w' = temp_files_to_cleanup w \<and>
           unlink_denied w' = unlink_denied w"
proof (cases "map_of (files w) p")
  case None
  then have "\<not> os_path_exists w p" by (simp add: os_path_exists_def)
  with assms show ?thesis by (simp add: read_and_release_missing_file)
next
  case (Some f)
  show ?thesis
  proof (cases "unlink_denied w p")
    case True
    with assms Some show ?thesis by (simp add: read_and_release_denied)
  next
    case False
    with assms Some show ?thesis by (auto simp: read_and_release_ok)
  qed
qed

text \<open>
  Claim C6, as amended. When \<^verbatim>\<open>generate_audio\<close> returns a path and the model has
  written the bytes \<open>bs\<close>, the file exists and holds exactly \<open>bs\<close>, so that it is empty
  only if the model wrote nothing. Every \<^verbatim>\<open>read_and_release\<close> of that path that returns,
  returns \<open>bs\<close> and leaves no file. It returns unless the operating system refuses the
  unlink; then \<^verbatim>\<open>PermissionError\<close> leaves \<^verbatim>\<open>main\<close> after the bytes went to the player, and
  the file stays.
\<close>

theorem generate_audio_then_read_and_release:
  assumes "generate_audio txt model speaker language speed w = (Some p, w')"
    and "tts_to_file model (tts_kwargs model txt speaker language p speed) = Wrote bs"
  shows "os_path_exists w' p \<and>
         (\<exists>f. map_of (files w') p = Some f \<and> content f = bs) \<and>
         (\<forall>bs' w''. read_and_release p w' = Inr (bs', w'') \<longrightarrow>
            bs' = bs \<and> length bs' = length bs \<and> \<not> os_path_exists w'' p) \<and>
         (\<not> unlink_denied w' p \<longrightarrow> (\<exists>w''. read_and_release p w' = Inr (bs, w''))) \<and>
         (unlink_denied w' p \<longrightarrow>
            release_result (read_and_release p w') = Inl (PermissionError p) \<and>
            StAudio bs \<in> set (ui (release_world (read_and_release p w'))) \<and>
            os_path_exists (release_world (read_and_release p w')) p)"
proof -
  obtain w1 bs0 where tmp: "NamedTemporaryFile w = Inr (p, w1)"
    and "tts_to_file model (tts_kwargs model txt speaker language p speed) = Wrote bs0"
    using generate_audio_Some [OF assms(1)] by blast
  with assms(2) have wrote: "tts_to_file model (tts_kwargs model txt speaker language p speed) = Wrote bs"
    by simp
  have w': "w' = w1\<lparr>tts_calls := tts_calls w @ [tts_kwargs model txt speaker language p speed],
         files := AList.update p \<lparr>content = bs, mtime = clock w\<rparr> (files w1),
         temp_files_to_cleanup := List.insert p (temp_files_to_cleanup w)\<rparr>"
    using assms(1) by (simp add: generate_audio_Wrote [OF tmp wrote])
  have stored: "map_of (files w') p = Some \<lparr>content = bs, mtime = clock w\<rparr>"
    by (simp add: w' update_conv')
  have 1: "os_path_exists w' p" "\<exists>f. map_of (files w') p = Some f \<and> content f = bs"
    using stored by (simp_all add: os_path_exists_def)
  have 2: "bs' = bs \<and> length bs' = length bs \<and> \<not> os_path_exists w'' p"
    if "read_and_release p w' = Inr (bs', w'')" for bs' w''
    using read_and_release_Inr [OF that] stored
    by (auto simp: os_path_exists_def delete_conv')
  have 3: "\<exists>w''. read_and_release p w' = Inr (bs, w'')" if "\<not> unlink_denied w' p"
    using read_and_release_ok [OF stored that] by simp
  have 4: "release_result (read_and_release p w') = Inl (PermissionError p) \<and>
      StAudio bs \<in> set (ui (release_world (read_and_release p w'))) \<and>
      os_path_exists (release_world (read_and_release p w')) p"
    if "unlink_denied w' p"
    using stored
    by (simp add: read_and_release_denied [OF stored that] release_result_def
          release_world_def os_path_exists_def)
  from 1 2 3 4 show ?thesis by blast
qed

lemma good_model_Wrote: "tts_to_file good_model kw = Wrote (replicate 5000 0)"
  by (simp add: good_model_def)

lemma silent_model_Wrote: "tts_to_file silent_model kw = Wrote []"
  by (simp add: silent_model_def)

text \<open>5000 bytes written, 5000 bytes read, and no file left.\<close>

theorem generate_audio_then_read_and_release_witness:
  "fst (generate_audio ''Bonjour'' good_model None None 1 base_world) = Some new_path \<and>
   os_path_exists (snd (generate_audio ''Bonjour'' good_model None None 1 base_world)) new_path \<and>
   (\<exists>w''. read_and_release new_path
            (snd (generate_audio ''Bonjour'' good_model None None 1 base_world)) =
          Inr (replicate 5000 0, w'') \<and> length (replicate 5000 (0::byte)) = 5000 \<and>
          \<not> os_path_exists w'' new_path)"
proof -
  obtain w1 where h: "NamedTemporaryFile base_world = Inr (new_path, w1)"
    using NamedTemporaryFile_base_world by blast
  obtain w' where gen: "generate_audio ''Bonjour'' good_model None None 1 base_world =
      (Some new_path, w')"
    by (simp add: generate_audio_Wrote [OF h good_model_Wrote])
  have "unlink_denied w' = unlink_denied base_world"
    using gen NamedTemporaryFile_Inr(3) [OF h]
    by (auto simp: generate_audio_Wrote [OF h good_model_Wrote] write_bytes_def)
  then have ok: "\<not> unlink_denied w' new_path"
    by (simp add: base_world_def)
  from generate_audio_then_read_and_release [OF gen good_model_Wrote] ok gen
  show ?thesis
    by auto
qed

text \<open>
  The claim as it was written fails twice. A model that returns without having written
  a byte leaves the file that \<^verbatim>\<open>tempfile\<close> created, and \<^verbatim>\<open>generate_audio\<close> returns its
  path: the file is empty. Where the unlink is refused, \<^verbatim>\<open>read_and_release\<close> ends with
  \<^verbatim>\<open>PermissionError\<close> and the file is still there.
\<close>

theorem generate_audio_then_read_and_release_counterexample:
  "fst (generate_audio ''Bonjour'' silent_model None None 1 base_world) = Some new_path \<and>
   read_bytes new_path (snd (generate_audio ''Bonjour'' silent_model None None 1 base_world)) =
     Inr [] \<and>
   fst (generate_audio ''Bonjour'' good_model None None 1 locked_world) = Some new_path \<and>
   release_result (read_and_release new_path
       (snd (generate_audio ''Bonjour'' good_model None None 1 locked_world))) =
     Inl (PermissionError new_path) \<and>
   os_path_exists (release_world (read_and_release new_path
       (snd (generate_audio ''Bonjour'' good_model None None 1 locked_world)))) new_path"
proof -
  obtain w1 where h1: "NamedTemporaryFile base_world = Inr (new_path, w1)"
    using NamedTemporaryFile_base_world by blast
  obtain w2 where h2: "NamedTemporaryFile locked_world = Inr (new_path, w2)"
    using NamedTemporaryFile_locked_world by blast
  obtain r2 where w2: "w2 = (write_bytes new_path [] locked_world)\<lparr>random_names := r2\<rparr>"
    using NamedTemporaryFile_Inr(3) [OF h2] by blast
  have a: "fst (generate_audio ''Bonjour'' silent_model None None 1 base_world) = Some new_path \<and>
      read_bytes new_path (snd (generate_audio ''Bonjour'' silent_model None None 1 base_world)) =
        Inr []"
    by (simp add: generate_audio_Wrote [OF h1 silent_model_Wrote] read_bytes_def update_conv')
  let ?w = "snd (generate_audio ''Bonjour'' good_model None None 1 locked_world)"
  have stored: "map_of (files ?w) new_path =
      Some \<lparr>content = replicate 5000 0, mtime = clock locked_world\<rparr>"
    by (simp add: generate_audio_Wrote [OF h2 good_model_Wrote] update_conv')
  have "unlink_denied locked_world new_path"
    by (simp add: locked_world_def)
  then have denied: "unlink_denied ?w new_path"
    by (simp add: generate_audio_Wrote [OF h2 good_model_Wrote] w2 write_bytes_def)
  have b: "fst (generate_audio ''Bonjour'' good_model None None 1 locked_world) = Some new_path"
    by (simp add: generate_audio_Wrote [OF h2 good_model_Wrote])
  have c: "release_result (read_and_release new_path ?w) = Inl (PermissionError new_path) \<and>
      os_path_exists (release_world (read_and_release new_path ?w)) new_path"
    using stored
    by (simp add: read_and_release_denied [OF stored denied] release_result_def
          release_world_def os_path_exists_def)
  from a b c show ?thesis by simp
qed

subsection \<open>Reading a file that is not there\<close>

text \<open>
  Claim C3, as amended. \<^verbatim>\<open>read_and_release\<close> on a path whose file is missing raises
  \<^verbatim>\<open>FileNotFoundError\<close> and changes nothing; no handler stands around it, so the
  exception leaves \<^verbatim>\<open>main\<close>. After a \<^verbatim>\<open>read_and_release\<close> that returned the data, a
  second one on the same path raises in this way.
\<close>

theorem read_and_release_missing:
  "(\<not> os_path_exists w p \<longrightarrow> read_and_release p w = Inl (FileNotFoundError p, w)) \<and>
   (\<forall>bs w'. read_and_release p w = Inr (bs, w') \<longrightarrow>
      read_and_release p w' = Inl (FileNotFoundError p, w'))"
proof -
  have "read_and_release p w' = Inl (FileNotFoundError p, w')"
    if "read_and_release p w = Inr (bs, w')" for bs w'
  proof -
    from read_and_release_Inr [OF that] have "files w' = AList.delete p (files w)"
      by blast
    then have "\<not> os_path_exists w' p"
      by (simp add: os_path_exists_def delete_conv')
    then show ?thesis
      by (rule read_and_release_missing_file)
  qed
  then show ?thesis
    by (simp add: read_and_release_missing_file)
qed

lemma old_path_orphan_world:
  "map_of (files orphan_world) old_path = Some \<lparr>content = [0x52, 0x49, 0x46, 0x46], mtime = 92800\<rparr>"
  "\<not> unlink_denied orphan_world old_path"
  by (simp_all add: orphan_world_def base_world_def)

lemma read_and_release_orphan_world:
  "\<exists>w'. read_and_release old_path orphan_world = Inr ([0x52, 0x49, 0x46, 0x46], w')"
  using read_and_release_ok [OF old_path_orphan_world] by simp

text \<open>A path that never had a file, and the old artifact released twice.\<close>

theorem read_and_release_missing_witness:
  "\<not> os_path_exists base_world new_path \<and>
   read_and_release new_path base_world = Inl (FileNotFoundError new_path, base_world) \<and>
   (\<exists>w'. read_and_release old_path orphan_world = Inr ([0x52, 0x49, 0x46, 0x46], w') \<and>
      read_and_release old_path w' = Inl (FileNotFoundError old_path, w'))"
proof -
  have a: "\<not> os_path_exists base_world new_path"
    by (simp add: os_path_exists_def base_world_def)
  obtain w' where b: "read_and_release old_path orphan_world = Inr ([0x52, 0x49, 0x46, 0x46], w')"
    using read_and_release_orphan_world by blast
  from read_and_release_missing [of base_world new_path] a
  have c: "read_and_release new_path base_world = Inl (FileNotFoundError new_path, base_world)"
    by blast
  from read_and_release_missing [of orphan_world old_path] b
  have "read_and_release old_path w' = Inl (FileNotFoundError old_path, w')"
    by blast
  with a b c show ?thesis by blast
qed

text \<open>
  The claim as it was written fails: the second \<^verbatim>\<open>read_and_release\<close> ends with an
  exception, not with an empty result.
\<close>

theorem read_and_release_missing_counterexample:
  "release_twice old_path orphan_world =
     Inr ([0x52, 0x49, 0x46, 0x46], Inl (FileNotFoundError old_path))"
proof -
  obtain w' where b: "read_and_release old_path orphan_world = Inr ([0x52, 0x49, 0x46, 0x46], w')"
    using read_and_release_orphan_world by blast
  from read_and_release_Inr [OF b] have "files w' = AList.delete old_path (files orphan_world)"
    by blast
  then have "\<not> os_path_exists w' old_path"
    by (simp add: os_path_exists_def delete_conv')
  then have "read_and_release old_path w' = Inl (FileNotFoundError old_path, w')"
    by (rule read_and_release_missing_file)
  with b show ?thesis
    by (simp add: release_twice_def)
qed

subsection \<open>Runs of \<^verbatim>\<open>main\<close>\<close>

lemma fold_show_test_result_ui: "\<exists>u. fold show_test_result rs w = w\<lparr>ui := u\<rparr>"
proof (induction rs arbitrary: w)
  case Nil
  show ?case by (rule exI [of _ "ui w"]) simp
next
  case (Cons r rs)
  obtain u where u: "fold show_test_result rs (show_test_result r w) =
      (show_test_result r w)\<lparr>ui := u\<rparr>"
    using Cons.IH by blast
  have "(show_test_result r w)\<lparr>ui := u\<rparr> = w\<lparr>ui := u\<rparr>"
    by (simp add: show_test_result_def st_success_def st_error_def split: prod.splits)
  with u have "fold show_test_result (r # rs) w = w\<lparr>ui := u\<rparr>"
    by simp
  then show ?case ..
qed

lemma test_button_branch_ui: "\<exists>u. test_button_branch inp w = w\<lparr>ui := u\<rparr>"
proof (cases "test_button inp")
  case True
  then show ?thesis
    using fold_show_test_result_ui [of "test_voice_loading w" w]
    by (simp add: test_button_branch_def)
next
  case False
  then have "test_button_branch inp w = w\<lparr>ui := ui w\<rparr>"
    by (simp add: test_button_branch_def)
  then show ?thesis ..
qed

lemma warn_long_text_eq:
  "warn_long_text inp w =
     w\<lparr>ui := ui w @
        (if 1000 < py_len (text_input inp)
         then [StWarning (warning_sign @ '' Long texts may take more time to process'')]
         else [])\<rparr>"
  by (simp add: warn_long_text_def st_warning_def)

lemma show_model_status_eq:
  "show_model_status w =
     w\<lparr>ui := ui w @
        [if tts_model w \<noteq> None then StSuccess (check_mark @ '' Model Ready'')
         else StWarning (warning_sign @ '' Please load a model first'')]\<rparr>"
  by (simp add: show_model_status_def st_success_def st_warning_def check_mark_def
        warning_sign_def)

lemma select_model_frame:
  "files (select_model model_path w) = files w"
  "tempdir (select_model model_path w) = tempdir w"
  "tempdir_writable (select_model model_path w) = tempdir_writable w"
  "random_names (select_model model_path w) = random_names w"
  "tts_calls (select_model model_path w) = tts_calls w"
  by (simp_all add: select_model_def load_tts_model_def st_error_def st_success_def
        split: sum.splits)

lemma tts_model_select_model_ui:
  "tts_model (select_model model_path (w\<lparr>ui := u\<rparr>)) = tts_model (select_model model_path w)"
  by (simp add: select_model_def load_tts_model_def st_error_def st_success_def
        split: sum.splits)

text \<open>The world in which \<^verbatim>\<open>main\<close> starts the synthesis differs only in the session.\<close>

lemma before_synthesis:
  fixes inp model_path w
  defines "w2 \<equiv> warn_long_text inp
      (show_model_status (select_model model_path (test_button_branch inp w)))"
  shows "files w2 = files w" and "tempdir w2 = tempdir w"
    and "tempdir_writable w2 = tempdir_writable w" and "random_names w2 = random_names w"
    and "tts_calls w2 = tts_calls w"
    and "tts_model w2 = tts_model (select_model model_path w)"
proof -
  obtain u where u: "test_button_branch inp w = w\<lparr>ui := u\<rparr>"
    using test_button_branch_ui by blast
  show "files w2 = files w" and "tempdir w2 = tempdir w"
    and "tempdir_writable w2 = tempdir_writable w" and "random_names w2 = random_names w"
    and "tts_calls w2 = tts_calls w"
    and "tts_model w2 = tts_model (select_model model_path w)"
    unfolding w2_def
    by (simp_all add: warn_long_text_eq show_model_status_eq select_model_frame u
          tts_model_select_model_ui)
qed

lemma mkstemp_inner_same_files:
  "files w' = files w \<Longrightarrow> tempdir w' = tempdir w \<Longrightarrow>
   mkstemp_inner w' rs = mkstemp_inner w rs"
  by (induction rs) (simp_all add: os_path_exists_def temp_name_def)

lemma NamedTemporaryFile_same_files:
  assumes "files w' = files w" and "tempdir w' = tempdir w"
    and "tempdir_writable w' = tempdir_writable w" and "random_names w' = random_names w"
    and "NamedTemporaryFile w = Inr (p, w1)"
  shows "\<exists>w1'. NamedTemporaryFile w' = Inr (p, w1')"
  using assms(3-5) mkstemp_inner_same_files [OF assms(1,2), of "random_names w"]
  by (auto simp: NamedTemporaryFile_def split: if_splits option.splits)

lemma tts_calls_read_and_release:
  "tts_calls (final_world (case read_and_release p w of
       Inl ew \<Rightarrow> Inl ew | Inr (audio_bytes, w4) \<Rightarrow> Inr w4)) = tts_calls w"
  by (simp add: read_and_release_def final_world_def os_unlink_def st_success_def Let_def
        split: sum.splits prod.splits if_splits)

lemma tts_calls_main:
  assumes "selected_voice_idx inp < length voice_options"
    and "voice_options ! selected_voice_idx inp = (label, model_path, speaker)"
    and "tts_model (select_model model_path w) = Some model"
    and "strip (text_input inp) \<noteq> []"
  shows "tts_calls (final_world (main inp w)) =
     tts_calls (snd (generate_for_voice model_path speaker inp model
        (warn_long_text inp
           (show_model_status (select_model model_path (test_button_branch inp w))))))"
proof -
  let ?w2 = "warn_long_text inp
      (show_model_status (select_model model_path (test_button_branch inp w)))"
  have model: "tts_model ?w2 = Some model"
    using before_synthesis(6) [of inp model_path w] assms(3) by simp
  obtain audio_file w3 where g: "generate_for_voice model_path speaker inp model ?w2 =
      (audio_file, w3)"
    by (cases "generate_for_voice model_path speaker inp model ?w2")
  show ?thesis
  proof (cases "truthy audio_file")
    case True
    with assms(1,2,4) g model show ?thesis
      by (simp add: main_def Let_def tts_calls_read_and_release)
  next
    case False
    with assms(1,2,4) g model show ?thesis
      by (simp add: main_def Let_def final_world_def)
  qed
qed

lemma str_contains_your_tts: "str_contains ''your_tts'' your_tts"
  by (simp add: your_tts_def)

subsection \<open>The speakers of the table\<close>

text \<open>
  Claim C10. The speakers of the entries labelled Sophie and Laurent are
  \<^verbatim>\<open>female-pt-4\<close> and \<^verbatim>\<open>male-pt-3\<close> followed by a line feed. When one of the two is
  selected, the model in use is multilingual or has speakers, the text is not blank and
  the temporary file is created, the one \<^verbatim>\<open>tts_to_file\<close> call of the run gets exactly
  that speaker, line feed included.
\<close>

theorem main_passes_newline_speaker:
  assumes "selected_voice_idx inp = 2 \<or> selected_voice_idx inp = 4"
    and "tts_model (select_model your_tts w) = Some model"
    and "truthy (languages model) \<or> truthy (speakers model)"
    and "strip (text_input inp) \<noteq> []"
    and "NamedTemporaryFile w = Inr (p, w1)"
  shows "voice_options ! 2 =
           (woman @ '' Sophie (Voix F'' @ e_acute @ ''minine Naturelle)'', your_tts,
            Some (''female-pt-4'' @ [CHR ''\<newline>''])) \<and>
         voice_options ! 4 =
           (man @ '' Laurent (Voix Masculine Expressive)'', your_tts,
            Some (''male-pt-3'' @ [CHR ''\<newline>''])) \<and>
         (\<exists>call. tts_calls (final_world (main inp w)) = tts_calls w @ [call] \<and>
            kw_file_path call = p \<and>
            kw_speaker call = snd (snd (voice_options ! selected_voice_idx inp)) \<and>
            kw_speaker call =
              Some ((if selected_voice_idx inp = 2 then ''female-pt-4'' else ''male-pt-3'')
                      @ [CHR ''\<newline>'']))"
proof -
  let ?w2 = "warn_long_text inp
      (show_model_status (select_model your_tts (test_button_branch inp w)))"
  let ?sp = "Some ((if selected_voice_idx inp = 2 then ''female-pt-4'' else ''male-pt-3'')
                      @ [CHR ''\<newline>''])"
  have tab: "voice_options ! 2 =
           (woman @ '' Sophie (Voix F'' @ e_acute @ ''minine Naturelle)'', your_tts,
            Some (''female-pt-4'' @ [CHR ''\<newline>'']))"
    "voice_options ! 4 =
           (man @ '' Laurent (Voix Masculine Expressive)'', your_tts,
            Some (''male-pt-3'' @ [CHR ''\<newline>'']))"
    by (simp_all add: voice_options_def)
  have len: "selected_voice_idx inp < length voice_options"
    using assms(1) by (auto simp: voice_options_def)
  obtain label where entry: "voice_options ! selected_voice_idx inp = (label, your_tts, ?sp)"
    using assms(1) tab by auto
  have sp: "truthy ?sp"
    by simp
  have gen: "generate_for_voice your_tts ?sp inp model ?w2 =
      generate_audio (text_input inp) model ?sp (Some ''fr-fr'') (voice_speed inp) ?w2"
    using sp by (simp add: generate_for_voice_def str_contains_your_tts)
  let ?call = "tts_kwargs model (text_input inp) ?sp (Some ''fr-fr'') p (voice_speed inp)"
  note same = before_synthesis [of inp your_tts w]
  obtain w1' where tmp: "NamedTemporaryFile ?w2 = Inr (p, w1')"
    using NamedTemporaryFile_same_files [OF same(1-4) assms(5)] by blast
  have calls: "tts_calls (final_world (main inp w)) = tts_calls w @ [?call]"
    by (simp add: tts_calls_main [OF len entry assms(2,4)] gen
          tts_calls_generate_audio [OF tmp] same(5))
  have speaker: "kw_speaker ?call = ?sp"
    using assms(3) sp by (auto simp: tts_kwargs_def)
  have "kw_file_path ?call = p"
    by (simp add: kw_file_path_tts_kwargs)
  with calls speaker entry tab show ?thesis
    by (intro conjI exI [of _ ?call]) simp_all
qed


lemmas run_defs =
  session_start_def new_session_def main_def select_model_def load_tts_model_def
  show_model_status_def generate_for_voice_def generate_audio_def NamedTemporaryFile_def
  temp_name_def os_path_join_def os_path_exists_def call_tts_to_file_def tts_kwargs_def
  write_bytes_def read_and_release_def read_bytes_def os_unlink_def
  unlink_ignoring_errors_def st_error_def st_success_def st_warning_def
  test_button_branch_def warn_long_text_def py_len_def is_continuation_def
  strip_def lstrip_def rstrip_def whitespace_def
  voice_options_def your_tts_def raised_def final_world_def

lemmas input_defs =
  sophie_input_def pierre_input_def base_world_def orphan_world_def good_model_def
  new_path_def old_path_def

lemmas fs_defs = os_path_exists_def os_unlink_def unlink_ignoring_errors_def
  os_path_getmtime_def entry_name_def os_path_join_def

lemmas dir_defs = base_world_def orphan_world_def stuck_world_def tracked_world_def
  locked_world_def old_path_def new_path_def recent_path_def


text \<open>Sophie on the machine with the empty temporary directory.\<close>

theorem main_passes_newline_speaker_witness:
  "selected_voice_idx sophie_input = 2 \<and>
   tts_model (select_model your_tts base_world) = Some good_model \<and>
   truthy (languages good_model) \<and>
   map kw_speaker (tts_calls (final_world (main sophie_input base_world))) =
     [Some (''female-pt-4'' @ [CHR ''\<newline>''])] \<and>
   map kw_file_path (tts_calls (final_world (main sophie_input base_world))) = [new_path]"
proof -
  have h1: "selected_voice_idx sophie_input = 2 \<or> selected_voice_idx sophie_input = 4"
    by (simp add: sophie_input_def)
  have h2: "tts_model (select_model your_tts base_world) = Some good_model"
    by (simp add: select_model_def load_tts_model_def base_world_def st_success_def)
  have h3: "truthy (languages good_model) \<or> truthy (speakers good_model)"
    by (simp add: good_model_def)
  have h4: "strip (text_input sophie_input) \<noteq> []"
    by (simp add: sophie_input_def strip_def lstrip_def rstrip_def whitespace_def)
  obtain w1 where h5: "NamedTemporaryFile base_world = Inr (new_path, w1)"
    using NamedTemporaryFile_base_world by blast
  have "tts_calls base_world = []"
    by (simp add: base_world_def)
  with main_passes_newline_speaker [OF h1 h2 h3 h4 h5] h2
  show ?thesis
    by (auto simp: sophie_input_def good_model_def)
qed

subsection \<open>A model that does not load\<close>

text \<open>
  Claim C9. When the body of \<^verbatim>\<open>load_tts_model\<close> raises, the function shows the error
  and returns \<^verbatim>\<open>None\<close>; and a run of \<^verbatim>\<open>main\<close> that makes this call ends without an
  exception, with no model in the session: after the elements of the test button, if it
  was pressed, it has shown the error of the loading, that the model failed to load and
  that a model must be loaded, and then the warning for a long text, if the text is
  long.
\<close>

theorem load_tts_model_failure:
  assumes "TTS w model_name = Inl e"
  shows "load_tts_model model_name w =
           (None, w\<lparr>ui := ui w @ [StError (''Error loading model: '' @ e)]\<rparr>) \<and>
         (\<forall>inp label speaker.
            selected_voice_idx inp < length voice_options \<and>
            voice_options ! selected_voice_idx inp = (label, model_name, speaker) \<and>
            (tts_model w = None \<or> last_model_path w \<noteq> Some model_name) \<longrightarrow>
            main inp w =
              Inr (warn_long_text inp
                     ((test_button_branch inp w)
                        \<lparr>tts_model := None, last_model_path := Some model_name,
                         ui := ui (test_button_branch inp w) @
                           [StError (''Error loading model: '' @ e),
                            StError (cross_mark @ '' Failed to load model''),
                            StWarning (warning_sign @ '' Please load a model first'')]\<rparr>)))"
proof -
  have load: "load_tts_model model_name w' =
      (None, w'\<lparr>ui := ui w' @ [StError (''Error loading model: '' @ e)]\<rparr>)"
    if "TTS w' = TTS w" for w'
    using assms that by (simp add: load_tts_model_def st_error_def)
  have run: "main inp w =
      Inr (warn_long_text inp
             ((test_button_branch inp w)
                \<lparr>tts_model := None, last_model_path := Some model_name,
                 ui := ui (test_button_branch inp w) @
                   [StError (''Error loading model: '' @ e),
                    StError (cross_mark @ '' Failed to load model''),
                    StWarning (warning_sign @ '' Please load a model first'')]\<rparr>))"
    if "selected_voice_idx inp < length voice_options"
      and "voice_options ! selected_voice_idx inp = (label, model_name, speaker)"
      and "tts_model w = None \<or> last_model_path w \<noteq> Some model_name"
    for inp label speaker
  proof -
    let ?w0 = "test_button_branch inp w"
    obtain u where u: "?w0 = w\<lparr>ui := u\<rparr>"
      using test_button_branch_ui by blast
    have same: "TTS ?w0 = TTS w" "tts_model ?w0 = tts_model w"
      "last_model_path ?w0 = last_model_path w"
      by (simp_all add: u)
    have sel: "select_model model_name ?w0 =
        ?w0\<lparr>tts_model := None, last_model_path := Some model_name,
           ui := ui ?w0 @ [StError (''Error loading model: '' @ e),
                          StError (cross_mark @ '' Failed to load model'')]\<rparr>"
      using that(3) same(2,3)
      by (auto simp: select_model_def load [OF same(1)] st_error_def cross_mark_def)
    show ?thesis
      using that(1,2)
      by (simp add: main_def Let_def sel show_model_status_eq warn_long_text_eq)
  qed
  from load [of w] run show ?thesis
    by blast
qed

text \<open>The first voice, whose model does not load on the example machine.\<close>

theorem load_tts_model_failure_witness:
  "TTS base_world ''tts_models/fr/css10/vits'' = Inl ''model not found'' \<and>
   load_tts_model ''tts_models/fr/css10/vits'' base_world =
     (None, base_world\<lparr>ui := [StError ''Error loading model: model not found'']\<rparr>) \<and>
   raised (main pierre_input base_world) = None \<and>
   tts_model (final_world (main pierre_input base_world)) = None \<and>
   ui (final_world (main pierre_input base_world)) =
     [StError ''Error loading model: model not found'',
      StError (cross_mark @ '' Failed to load model''),
      StWarning (warning_sign @ '' Please load a model first'')]"
proof -
  have h: "TTS base_world ''tts_models/fr/css10/vits'' = Inl ''model not found''"
    by (simp add: base_world_def your_tts_def)
  have i: "selected_voice_idx pierre_input < length voice_options \<and>
      voice_options ! selected_voice_idx pierre_input =
        (man @ '' Pierre (Voix Masculine Claire)'', ''tts_models/fr/css10/vits'', None) \<and>
      (tts_model base_world = None \<or>
       last_model_path base_world \<noteq> Some ''tts_models/fr/css10/vits'')"
    by (simp add: pierre_input_def voice_options_def base_world_def)
  have u: "ui base_world = []"
    by (simp add: base_world_def)
  have t: "test_button_branch pierre_input base_world = base_world"
    "\<not> 1000 < py_len (text_input pierre_input)"
    by (simp_all add: test_button_branch_def pierre_input_def py_len_def is_continuation_def)
  from load_tts_model_failure [OF h] i
  have "load_tts_model ''tts_models/fr/css10/vits'' base_world =
      (None, base_world\<lparr>ui := ui base_world @ [StError (''Error loading model: '' @ ''model not found'')]\<rparr>)"
    and "main pierre_input base_world =
      Inr (warn_long_text pierre_input
             ((test_button_branch pierre_input base_world)
                \<lparr>tts_model := None, last_model_path := Some ''tts_models/fr/css10/vits'',
                 ui := ui (test_button_branch pierre_input base_world) @
                   [StError (''Error loading model: '' @ ''model not found''),
                    StError (cross_mark @ '' Failed to load model''),
                    StWarning (warning_sign @ '' Please load a model first'')]\<rparr>))"
    by blast+
  with h u t show ?thesis
    by (simp add: raised_def final_world_def warn_long_text_eq)
qed

subsection \<open>What a run leaves behind\<close>

text \<open>
  Claim C2 fails on the code. Line 284 unlinks the file and no line discards the path:
  after the first run of a session with the third voice, the artifact is gone from the
  disk and its path is still in \<^verbatim>\<open>temp_files_to_cleanup\<close>.
\<close>

theorem session_start_keeps_released_path:
  "raised (session_start sophie_input base_world) = None \<and>
   map kw_file_path (tts_calls (final_world (session_start sophie_input base_world))) = [new_path] \<and>
   \<not> os_path_exists (final_world (session_start sophie_input base_world)) new_path \<and>
   temp_files_to_cleanup (final_world (session_start sophie_input base_world)) = [new_path]"
  by (simp add: run_defs input_defs Let_def)

text \<open>
  Claim C7 fails on the code. No line of the script calls \<^verbatim>\<open>cleanup_orphaned_files\<close>:
  an artifact two hours old, which the sweep would delete, is still there after the
  first run of a session, whether the model loads or not.
\<close>

theorem session_start_leaves_orphan:
  "is_artifact_name orphan_world old_path \<and>
   os_path_getmtime old_path orphan_world = Inr (clock orphan_world - 7200) \<and>
   \<not> os_path_exists (cleanup_orphaned_files orphan_world) old_path \<and>
   raised (session_start sophie_input orphan_world) = None \<and>
   os_path_exists (final_world (session_start sophie_input orphan_world)) old_path \<and>
   raised (session_start pierre_input orphan_world) = None \<and>
   os_path_exists (final_world (session_start pierre_input orphan_world)) old_path"
proof -
  have a: "is_artifact_name orphan_world old_path \<and>
      os_path_getmtime old_path orphan_world = Inr (clock orphan_world - 7200)"
    by (simp add: is_artifact_name_def entry_name_def os_path_getmtime_def os_path_join_def
          input_defs)
  have b: "\<not> os_path_exists (cleanup_orphaned_files orphan_world) old_path"
    by (simp add: cleanup_orphaned_files_def glob_glob_def has_magic_def entry_name_def
          os_path_join_def sweep_step_def os_path_getmtime_def unlink_ignoring_errors_def
          os_unlink_def os_path_exists_def input_defs)
  have c: "raised (session_start sophie_input orphan_world) = None \<and>
      os_path_exists (final_world (session_start sophie_input orphan_world)) old_path"
    by (simp add: run_defs input_defs Let_def)
  have d: "raised (session_start pierre_input orphan_world) = None \<and>
      os_path_exists (final_world (session_start pierre_input orphan_world)) old_path"
    by (simp add: run_defs input_defs Let_def)
  from a b c d show ?thesis by simp
qed

subsection \<open>The handler of the exit\<close>

text \<open>
  Claim C5 fails on the code. \<^verbatim>\<open>cleanup_temp_files\<close> is called by \<^verbatim>\<open>atexit\<close> only, outside
  every script run: line 26, which stands before the \<^verbatim>\<open>try\<close>, raises
  \<^verbatim>\<open>AttributeError\<close>, no file is deleted and the set keeps its two paths. Called
  inside a script run on the same state, the function returns, the tracked file is
  gone and the set is empty.
\<close>

theorem process_exit_raises:
  "temp_files_to_cleanup tracked_world = [old_path, new_path] \<and>
   os_path_exists tracked_world old_path \<and>
   raised (process_exit tracked_world) = Some (AttributeError ''temp_files_to_cleanup'') \<and>
   os_path_exists (final_world (process_exit tracked_world)) old_path \<and>
   temp_files_to_cleanup (final_world (process_exit tracked_world)) = [old_path, new_path] \<and>
   raised (cleanup_temp_files True tracked_world) = None \<and>
   \<not> os_path_exists (final_world (cleanup_temp_files True tracked_world)) old_path \<and>
   temp_files_to_cleanup (final_world (cleanup_temp_files True tracked_world)) = []"
  by (simp add: process_exit_def cleanup_temp_files_def session_temp_files_def
        cleanup_step_def raised_def final_world_def fs_defs dir_defs)

subsection \<open>The naming convention\<close>

lemma fnmatch_literal:
  "CHR ''*'' \<notin> set lit \<Longrightarrow> fnmatch lit s = (s = lit)"
proof (induction lit arbitrary: s)
  case Nil
  show ?case by simp
next
  case (Cons c lit)
  then show ?case by (cases s) auto
qed

lemma fnmatch_star_literal:
  "CHR ''*'' \<notin> set lit \<Longrightarrow> fnmatch (CHR ''*'' # lit) s = (\<exists>mid. s = mid @ lit)"
proof (induction s)
  case Nil
  then show ?case by (auto simp: fnmatch_literal)
next
  case (Cons d s)
  have "(\<exists>mid. d # s = mid @ lit) = (d # s = lit \<or> (\<exists>mid. s = mid @ lit))"
    by (auto simp: Cons_eq_append_conv)
  with Cons show ?case
    by (auto simp: fnmatch_literal)
qed

lemma fnmatch_tmp_wav:
  "fnmatch ''tmp*.wav'' name = (\<exists>mid. name = ''tmp'' @ mid @ ''.wav'')"
proof -
  have star: "fnmatch ''*.wav'' s = (\<exists>mid. s = mid @ ''.wav'')" for s
    by (rule fnmatch_star_literal) simp
  show ?thesis
  proof (cases name)
    case Nil
    then show ?thesis by simp
  next
    case (Cons a s1)
    show ?thesis
    proof (cases s1)
      case Nil
      with Cons show ?thesis by simp
    next
      case (Cons b s2)
      show ?thesis
      proof (cases s2)
        case Nil
        with \<open>name = a # s1\<close> \<open>s1 = b # s2\<close> show ?thesis by simp
      next
        case (Cons c s3)
        with \<open>name = a # s1\<close> \<open>s1 = b # s2\<close> show ?thesis
          using star [of s3] by auto
      qed
    qed
  qed
qed

subsection \<open>The loop of \<^verbatim>\<open>cleanup_orphaned_files\<close>\<close>

lemma sweep_step_eq:
  "sweep_step p w =
     (if is_older_than 3600 w p \<and> \<not> unlink_denied w p
      then w\<lparr>files := AList.delete p (files w)\<rparr> else w)"
  by (simp add: sweep_step_def is_older_than_def os_path_getmtime_def
        unlink_ignoring_errors_def os_unlink_def os_path_exists_def split: option.splits)

lemma is_older_than_delete:
  "is_older_than T (w\<lparr>files := AList.delete p (files w)\<rparr>) q = (q \<noteq> p \<and> is_older_than T w q)"
  by (auto simp: is_older_than_def delete_conv' split: option.splits)

lemma fold_sweep_step_frame: "\<exists>fs. fold sweep_step ps w = w\<lparr>files := fs\<rparr>"
proof (induction ps arbitrary: w)
  case Nil
  show ?case by (rule exI [of _ "files w"]) simp
next
  case (Cons p ps)
  obtain fs where fs: "fold sweep_step ps (sweep_step p w) = (sweep_step p w)\<lparr>files := fs\<rparr>"
    using Cons.IH by blast
  have "(sweep_step p w)\<lparr>files := fs\<rparr> = w\<lparr>files := fs\<rparr>"
    by (simp add: sweep_step_eq)
  with fs have "fold sweep_step (p # ps) w = w\<lparr>files := fs\<rparr>"
    by simp
  then show ?case ..
qed

lemma fold_sweep_step_files:
  "map_of (files (fold sweep_step ps w)) q =
     (if q \<in> set ps \<and> is_older_than 3600 w q \<and> \<not> unlink_denied w q then None
      else map_of (files w) q)"
proof (induction ps arbitrary: w)
  case Nil
  show ?case by simp
next
  case (Cons p ps)
  show ?case
  proof (cases "is_older_than 3600 w p \<and> \<not> unlink_denied w p")
    case True
    then have "sweep_step p w = w\<lparr>files := AList.delete p (files w)\<rparr>"
      by (simp add: sweep_step_eq)
    then show ?thesis
      using True by (auto simp: Cons.IH is_older_than_delete delete_conv')
  next
    case False
    then have "sweep_step p w = w"
      by (auto simp: sweep_step_eq)
    then show ?thesis
      using False by (auto simp: Cons.IH)
  qed
qed

lemma os_path_join_Nil: "os_path_join d name = os_path_join d [] @ name"
  by (simp add: os_path_join_def)

lemma entry_name_join:
  "name \<noteq> [] \<Longrightarrow> CHR ''/'' \<notin> set name \<Longrightarrow>
   entry_name d (os_path_join d name) = Some name"
  by (simp add: entry_name_def os_path_join_Nil [of d name])

lemma set_glob_glob:
  "\<not> has_magic (tempdir w) \<Longrightarrow>
   q \<in> set (glob_glob w (tempdir w) ''tmp*.wav'') = (os_path_exists w q \<and> is_artifact_name w q)"
  by (auto simp: glob_glob_def is_artifact_name_def os_path_exists_def map_of_eq_None_iff
        split: option.splits)

lemma map_of_filter_key:
  "map_of (filter (\<lambda>(p, f). P p) xs) q = (if P q then map_of xs q else None)"
  by (induction xs) auto

text \<open>
  Claim C4, as amended. \<^verbatim>\<open>cleanup_orphaned_files\<close> takes no threshold: its threshold is
  the constant 3600 seconds. It changes nothing but the files, the set
  \<^verbatim>\<open>temp_files_to_cleanup\<close> included, it never raises, and every file it changes it
  deletes, was modified more than 3600 seconds ago and had no unlink refused. When the
  path of the temporary directory has no pattern character, it deletes exactly the
  files that are entries of that directory named \<^verbatim>\<open>tmp\<close>, anything, \<^verbatim>\<open>.wav\<close>, that were
  modified more than 3600 seconds ago and whose unlink is not refused; and when no
  unlink is refused it leaves the files that the specification's sweep with threshold
  3600 leaves.
\<close>

theorem cleanup_orphaned_files_spec:
  "cleanup_orphaned_files w = w\<lparr>files := files (cleanup_orphaned_files w)\<rparr> \<and>
   temp_files_to_cleanup (cleanup_orphaned_files w) = temp_files_to_cleanup w \<and>
   (\<forall>q. map_of (files (cleanup_orphaned_files w)) q \<noteq> map_of (files w) q \<longrightarrow>
      map_of (files (cleanup_orphaned_files w)) q = None \<and>
      is_older_than 3600 w q \<and> \<not> unlink_denied w q) \<and>
   (\<forall>q. is_artifact_name w q =
      (\<exists>mid. q = os_path_join (tempdir w) (''tmp'' @ mid @ ''.wav'') \<and> CHR ''/'' \<notin> set mid)) \<and>
   (\<not> has_magic (tempdir w) \<longrightarrow>
      (\<forall>q. map_of (files (cleanup_orphaned_files w)) q =
         (if is_artifact_name w q \<and> is_older_than 3600 w q \<and> \<not> unlink_denied w q then None
          else map_of (files w) q)) \<and>
      ((\<forall>q. \<not> unlink_denied w q) \<longrightarrow>
         map_of (files (cleanup_orphaned_files w)) = map_of (files (sweep_orphans 3600 w))))"
proof -
  have a: "map_of (files (cleanup_orphaned_files w)) q =
      (if is_artifact_name w q \<and> is_older_than 3600 w q \<and> \<not> unlink_denied w q then None
       else map_of (files w) q)" if "\<not> has_magic (tempdir w)" for q
  proof -
    have "is_older_than 3600 w q \<Longrightarrow> os_path_exists w q"
      by (auto simp: is_older_than_def os_path_exists_def split: option.splits)
    then show ?thesis
      by (auto simp: cleanup_orphaned_files_def fold_sweep_step_files set_glob_glob [OF that])
  qed
  obtain fs where fs: "cleanup_orphaned_files w = w\<lparr>files := fs\<rparr>"
    unfolding cleanup_orphaned_files_def using fold_sweep_step_frame by blast
  have b: "cleanup_orphaned_files w = w\<lparr>files := files (cleanup_orphaned_files w)\<rparr>"
    by (simp add: fs)
  have c: "temp_files_to_cleanup (cleanup_orphaned_files w) = temp_files_to_cleanup w"
    by (simp add: fs)
  have c': "map_of (files (cleanup_orphaned_files w)) q = None \<and>
      is_older_than 3600 w q \<and> \<not> unlink_denied w q"
    if "map_of (files (cleanup_orphaned_files w)) q \<noteq> map_of (files w) q" for q
    using that by (auto simp: cleanup_orphaned_files_def fold_sweep_step_files split: if_splits)
  have d: "is_artifact_name w q =
      (\<exists>mid. q = os_path_join (tempdir w) (''tmp'' @ mid @ ''.wav'') \<and> CHR ''/'' \<notin> set mid)"
    for q
  proof
    assume "is_artifact_name w q"
    then obtain name where n: "entry_name (tempdir w) q = Some name" "fnmatch ''tmp*.wav'' name"
      by (auto simp: is_artifact_name_def split: option.splits)
    from n(2) obtain mid where mid: "name = ''tmp'' @ mid @ ''.wav''"
      by (auto simp: fnmatch_tmp_wav)
    let ?pre = "os_path_join (tempdir w) []"
    from n(1) have parts: "take (length ?pre) q = ?pre" "name = drop (length ?pre) q"
      "CHR ''/'' \<notin> set name"
      by (auto simp: entry_name_def Let_def split: if_splits)
    have "take (length ?pre) q @ drop (length ?pre) q = q"
      by (rule append_take_drop_id)
    with parts have "q = ?pre @ name" "CHR ''/'' \<notin> set name"
      by simp_all
    with mid show "\<exists>mid. q = os_path_join (tempdir w) (''tmp'' @ mid @ ''.wav'') \<and> CHR ''/'' \<notin> set mid"
      by (auto simp: os_path_join_Nil [of _ "_ # _"])
  next
    assume "\<exists>mid. q = os_path_join (tempdir w) (''tmp'' @ mid @ ''.wav'') \<and> CHR ''/'' \<notin> set mid"
    then obtain mid where "q = os_path_join (tempdir w) (''tmp'' @ mid @ ''.wav'')"
      "CHR ''/'' \<notin> set mid"
      by blast
    moreover have "fnmatch ''tmp*.wav'' (''tmp'' @ mid @ ''.wav'')"
      by (subst fnmatch_tmp_wav) blast
    ultimately show "is_artifact_name w q"
      by (simp add: is_artifact_name_def entry_name_join del: fnmatch.simps)
  qed
  have e: "map_of (files (cleanup_orphaned_files w)) = map_of (files (sweep_orphans 3600 w))"
    if "\<not> has_magic (tempdir w)" and "\<forall>q. \<not> unlink_denied w q"
  proof
    fix q
    show "map_of (files (cleanup_orphaned_files w)) q = map_of (files (sweep_orphans 3600 w)) q"
      using that(2) by (simp add: a [OF that(1)] sweep_orphans_def map_of_filter_key)
  qed
  from a b c c' d e show ?thesis
    by blast
qed

lemmas sweep_defs = cleanup_orphaned_files_def glob_glob_def has_magic_def sweep_step_def
  is_artifact_name_def is_older_than_def sweep_orphans_def

text \<open>The directory with an old artifact, a recent one and a file of another program.\<close>

theorem cleanup_orphaned_files_spec_witness:
  "\<not> has_magic (tempdir orphan_world) \<and>
   is_artifact_name orphan_world old_path \<and> is_older_than 3600 orphan_world old_path \<and>
   is_artifact_name orphan_world recent_path \<and> \<not> is_older_than 3600 orphan_world recent_path \<and>
   \<not> is_artifact_name orphan_world ''/tmp/notes.txt'' \<and>
   \<not> os_path_exists (cleanup_orphaned_files orphan_world) old_path \<and>
   os_path_exists (cleanup_orphaned_files orphan_world) recent_path \<and>
   os_path_exists (cleanup_orphaned_files orphan_world) ''/tmp/notes.txt'' \<and>
   map_of (files (cleanup_orphaned_files orphan_world)) =
     map_of (files (sweep_orphans 3600 orphan_world))"
proof -
  have a: "is_artifact_name orphan_world old_path" "is_older_than 3600 orphan_world old_path"
    "is_artifact_name orphan_world recent_path" "\<not> is_older_than 3600 orphan_world recent_path"
    "\<not> is_artifact_name orphan_world ''/tmp/notes.txt''"
    by (simp_all add: is_artifact_name_def is_older_than_def fs_defs dir_defs)
  have b: "\<forall>q. \<not> unlink_denied orphan_world q"
    by (simp add: dir_defs)
  have c: "os_path_exists orphan_world recent_path" "os_path_exists orphan_world ''/tmp/notes.txt''"
    by (simp_all add: fs_defs dir_defs)
  have m: "\<not> has_magic (tempdir orphan_world)"
    by (simp add: has_magic_def dir_defs)
  note spec = cleanup_orphaned_files_spec [of orphan_world]
  from spec m have look: "map_of (files (cleanup_orphaned_files orphan_world)) q =
      (if is_artifact_name orphan_world q \<and> is_older_than 3600 orphan_world q \<and>
          \<not> unlink_denied orphan_world q
       then None else map_of (files orphan_world) q)" for q
    by blast
  from spec m b have same: "map_of (files (cleanup_orphaned_files orphan_world)) =
      map_of (files (sweep_orphans 3600 orphan_world))"
    by blast
  have d: "\<not> os_path_exists (cleanup_orphaned_files orphan_world) old_path"
    "os_path_exists (cleanup_orphaned_files orphan_world) recent_path"
    "os_path_exists (cleanup_orphaned_files orphan_world) ''/tmp/notes.txt''"
    using a b c by (simp_all add: os_path_exists_def look)
  from m a d same show ?thesis
    by blast
qed

text \<open>
  The claim as it was written fails twice. An artifact one minute old, which a sweep
  with threshold 0 deletes, is left by the only sweep the code has. An artifact two
  hours old whose unlink is refused is left too.
\<close>

theorem cleanup_orphaned_files_spec_counterexample:
  "is_artifact_name orphan_world recent_path \<and>
   os_path_getmtime recent_path orphan_world = Inr (clock orphan_world - 60) \<and>
   \<not> os_path_exists (sweep_orphans 0 orphan_world) recent_path \<and>
   os_path_exists (cleanup_orphaned_files orphan_world) recent_path \<and>
   is_artifact_name stuck_world old_path \<and>
   os_path_getmtime old_path stuck_world = Inr (clock stuck_world - 7200) \<and>
   os_path_exists (cleanup_orphaned_files stuck_world) old_path"
  by (simp add: sweep_defs fs_defs dir_defs)

end
